theory Spec2Isabelle
  imports Complex_Main
begin

section \<open>Python values, strings and exceptions\<close>

text \<open>
  The script \<^verbatim>\<open>data_import.py\<close> reads a CSV file with \<^verbatim>\<open>csv.DictReader\<close> and loads
  its rows into the table \<^verbatim>\<open>raw_transactions\<close>. A Python \<^verbatim>\<open>str\<close> is modelled as a
  \<^typ>\<open>string\<close>; a \<^typ>\<open>char\<close> stands for the code point of the same number, so the
  model covers the texts whose code points lie in U+0000 .. U+00FF. The values that a
  row of the reader holds, and the defaults that \<^verbatim>\<open>row.get\<close> is given, are \<^verbatim>\<open>None\<close>,
  a \<^verbatim>\<open>str\<close> or an \<^verbatim>\<open>int\<close>.
\<close>

datatype pyval = PNone | PStr string | PInt int

datatype exc =
    ValueError
  | TypeError
  | AttributeError
  | OverflowError
  | MySQLError string
  | FileNotFoundError
  | OtherError string

text \<open>
  \<^verbatim>\<open>str.isspace\<close> on one character, for the code points below 256: the ASCII
  controls 0x09 .. 0x0D and 0x1C .. 0x1F, the space, NEL (0x85) and the no-break
  space (0xA0). \<^verbatim>\<open>str.strip()\<close> removes these at both ends.
\<close>

definition is_space :: "char \<Rightarrow> bool" where
  "is_space c \<longleftrightarrow> c \<in> set [CHR 0x09, CHR 0x0A, CHR 0x0B, CHR 0x0C, CHR 0x0D,
     CHR 0x1C, CHR 0x1D, CHR 0x1E, CHR 0x1F, CHR 0x20, CHR 0x85, CHR 0xA0]"

definition py_strip :: "string \<Rightarrow> string" where
  "py_strip s = rev (dropWhile is_space (rev (dropWhile is_space s)))"

text \<open>
  \<^verbatim>\<open>str.lower()\<close> below U+0100: the letters A .. Z and the Latin-1 capitals
  0xC0 .. 0xDE (without the multiplication sign 0xD7) move up by 32.
\<close>

definition lower_char :: "char \<Rightarrow> char" where
  "lower_char c =
     (let n = (of_char c :: nat)
      in if (65 \<le> n \<and> n \<le> 90) \<or> (192 \<le> n \<and> n \<le> 222 \<and> n \<noteq> 215)
         then char_of (n + 32) else c)"

definition py_lower :: "string \<Rightarrow> string" where
  "py_lower s = map lower_char s"

text \<open>Decimal digits, and \<^verbatim>\<open>str(n)\<close> for an \<^verbatim>\<open>int\<close>.\<close>

definition is_digit :: "char \<Rightarrow> bool" where
  "is_digit c \<longleftrightarrow> c \<in> set ''0123456789''"

definition digit_val :: "char \<Rightarrow> nat" where
  "digit_val c = of_char c - 48"

definition digit_char :: "nat \<Rightarrow> char" where
  "digit_char d = ''0123456789'' ! d"

fun str_nat :: "nat \<Rightarrow> string" where
  "str_nat n = (if n < 10 then [digit_char n] else str_nat (n div 10) @ [digit_char (n mod 10)])"

declare str_nat.simps [simp del]

definition str_int :: "int \<Rightarrow> string" where
  "str_int i = (if i < 0 then CHR ''-'' # str_nat (nat (- i)) else str_nat (nat i))"

definition py_str :: "pyval \<Rightarrow> string" where
  "py_str v = (case v of PNone \<Rightarrow> ''None'' | PStr s \<Rightarrow> s | PInt i \<Rightarrow> str_int i)"

text \<open>Truthiness, and \<^verbatim>\<open>x or d\<close>.\<close>

definition truthy :: "pyval \<Rightarrow> bool" where
  "truthy v = (case v of PNone \<Rightarrow> False | PStr s \<Rightarrow> s \<noteq> [] | PInt i \<Rightarrow> i \<noteq> 0)"

definition py_or :: "pyval \<Rightarrow> pyval \<Rightarrow> pyval" where
  "py_or x d = (if truthy x then x else d)"

section \<open>The value normalizer\<close>

text \<open>
  \<^verbatim>\<open>
  def clean_value(value):
      if value is None:
          return None
      value = str(value).strip()
      if value == '' or value.lower() == 'nan':
          return None
      return value
  \<close>
\<close>

definition clean_value :: "pyval \<Rightarrow> string option" where
  "clean_value v =
     (if v = PNone then None
      else let s = py_strip (py_str v)
           in if s = [] \<or> py_lower s = ''nan'' then None else Some s)"


section \<open>Floating-point numbers\<close>

text \<open>
  A Python \<^verbatim>\<open>float\<close> is an IEEE 754 binary64 number: a finite value, kept here as the
  rational it denotes, an infinity or a NaN. The two zeros are one value, since the
  script never looks at the sign of a zero.
\<close>

datatype pyfloat = Finite rat | PosInf | NegInf | NaN

fun ilog2 :: "nat \<Rightarrow> nat" where
  "ilog2 n = (if n < 2 then 0 else Suc (ilog2 (n div 2)))"

declare ilog2.simps [simp del]

definition clog2 :: "nat \<Rightarrow> nat" where
  "clog2 n = (if n \<le> 1 then 0 else Suc (ilog2 (n - 1)))"

definition pow2 :: "int \<Rightarrow> rat" where
  "pow2 e = (if 0 \<le> e then 2 ^ nat e else 1 / 2 ^ nat (- e))"

text \<open>The exponent \<open>e\<close> with \<open>2 ^ e \<le> a < 2 ^ (e + 1)\<close>, for a positive \<open>a\<close>.\<close>

definition binade :: "rat \<Rightarrow> int" where
  "binade a = (if 1 \<le> a then int (ilog2 (nat \<lfloor>a\<rfloor>)) else - int (clog2 (nat \<lceil>1 / a\<rceil>)))"

definition round_half_even :: "rat \<Rightarrow> int" where
  "round_half_even x =
     (if x - of_int \<lfloor>x\<rfloor> < 1 / 2 then \<lfloor>x\<rfloor>
      else if 1 / 2 < x - of_int \<lfloor>x\<rfloor> then \<lfloor>x\<rfloor> + 1
      else if even \<lfloor>x\<rfloor> then \<lfloor>x\<rfloor> else \<lfloor>x\<rfloor> + 1)"

text \<open>
  Rounding a rational to the nearest binary64 number, ties to even: 53 bits of
  significand, the exponents of the normal numbers from -1022 to 1023, gradual
  underflow below, and an infinity from \<open>2 ^ 1024\<close> on.
\<close>

definition round_to_ulp :: "rat \<Rightarrow> rat \<Rightarrow> rat" where
  "round_to_ulp ulp a = of_int (round_half_even (a / ulp)) * ulp"

definition float_of_rat :: "rat \<Rightarrow> pyfloat" where
  "float_of_rat q =
     (if q = 0 then Finite 0
      else if pow2 1024 \<le> round_to_ulp (pow2 (max (binade \<bar>q\<bar>) (- 1022) - 52)) \<bar>q\<bar>
      then (if 0 < q then PosInf else NegInf)
      else if 0 < q then Finite (round_to_ulp (pow2 (max (binade \<bar>q\<bar>) (- 1022) - 52)) \<bar>q\<bar>)
      else Finite (- round_to_ulp (pow2 (max (binade \<bar>q\<bar>) (- 1022) - 52)) \<bar>q\<bar>))"

text \<open>
  \<^verbatim>\<open>float(s)\<close> for a \<^verbatim>\<open>str\<close>, as CPython reads it. Underscores may stand between
  two digits and are dropped. Then white space is removed at both ends: the ASCII
  white space of C, and the two white-space code points 0x85 and 0xA0, which
  CPython turns into a space first. What is left is an optional sign followed by
  \<^verbatim>\<open>inf\<close>, \<^verbatim>\<open>infinity\<close> or \<^verbatim>\<open>nan\<close> in any case, or by a decimal numeral with an
  optional fraction and an optional exponent. The value is rounded correctly.
\<close>

fun drop_underscores :: "char \<Rightarrow> string \<Rightarrow> string option" where
  "drop_underscores prev [] = (if prev = CHR ''_'' then None else Some [])"
| "drop_underscores prev (c # cs) =
     (if c = CHR ''_'' then (if is_digit prev then drop_underscores c cs else None)
      else if prev = CHR ''_'' \<and> \<not> is_digit c then None
      else map_option ((#) c) (drop_underscores c cs))"

definition is_float_space :: "char \<Rightarrow> bool" where
  "is_float_space c \<longleftrightarrow>
     c \<in> set [CHR 0x09, CHR 0x0A, CHR 0x0B, CHR 0x0C, CHR 0x0D, CHR 0x20, CHR 0x85, CHR 0xA0]"

definition nat_of_digits :: "string \<Rightarrow> nat" where
  "nat_of_digits ds = foldl (\<lambda>a c. 10 * a + digit_val c) 0 ds"

definition pow10 :: "int \<Rightarrow> rat" where
  "pow10 e = (if 0 \<le> e then 10 ^ nat e else 1 / 10 ^ nat (- e))"

text \<open>The exponent part: empty, or \<^verbatim>\<open>e\<close> with an optional sign and at least one digit.\<close>

definition parse_exponent :: "string \<Rightarrow> int option" where
  "parse_exponent s =
     (case s of
        [] \<Rightarrow> Some 0
      | c # r \<Rightarrow>
          if c = CHR ''e'' \<or> c = CHR ''E'' then
            (case r of
               [] \<Rightarrow> None
             | d # r' \<Rightarrow>
                 if d = CHR ''-'' then
                   (if r' \<noteq> [] \<and> list_all is_digit r' then Some (- int (nat_of_digits r')) else None)
                 else if d = CHR ''+'' then
                   (if r' \<noteq> [] \<and> list_all is_digit r' then Some (int (nat_of_digits r')) else None)
                 else if list_all is_digit r then Some (int (nat_of_digits r)) else None)
          else None)"

text \<open>An unsigned numeral, as a rational.\<close>

definition parse_decimal :: "string \<Rightarrow> rat option" where
  "parse_decimal s =
     (let ip = takeWhile is_digit s; r1 = dropWhile is_digit s;
          fp = (case r1 of [] \<Rightarrow> [] | c # r \<Rightarrow> if c = CHR ''.'' then takeWhile is_digit r else []);
          r2 = (case r1 of [] \<Rightarrow> [] | c # r \<Rightarrow> if c = CHR ''.'' then dropWhile is_digit r else r1)
      in if ip = [] \<and> fp = [] then None
         else (case parse_exponent r2 of
                 None \<Rightarrow> None
               | Some ex \<Rightarrow>
                   Some (of_nat (nat_of_digits (ip @ fp)) * pow10 (ex - int (length fp)))))"

definition parse_unsigned :: "bool \<Rightarrow> string \<Rightarrow> exc + pyfloat" where
  "parse_unsigned neg s =
     (if py_lower s = ''inf'' \<or> py_lower s = ''infinity'' then Inr (if neg then NegInf else PosInf)
      else if py_lower s = ''nan'' then Inr NaN
      else (case parse_decimal s of
              None \<Rightarrow> Inl ValueError
            | Some q \<Rightarrow> Inr (float_of_rat (if neg then - q else q))))"

definition float_of_string :: "string \<Rightarrow> exc + pyfloat" where
  "float_of_string s =
     (case (if CHR ''_'' \<in> set s then drop_underscores (CHR 0x00) s else Some s) of
        None \<Rightarrow> Inl ValueError
      | Some t \<Rightarrow>
          (case rev (dropWhile is_float_space (rev (dropWhile is_float_space t))) of
             [] \<Rightarrow> Inl ValueError
           | c # r \<Rightarrow>
               if c = CHR ''-'' then parse_unsigned True r
               else if c = CHR ''+'' then parse_unsigned False r
               else parse_unsigned False (c # r)))"

text \<open>
  \<^verbatim>\<open>float(x)\<close>: of a \<^verbatim>\<open>str\<close> as above, of an \<^verbatim>\<open>int\<close> by rounding (an \<^verbatim>\<open>OverflowError\<close>
  when the integer is too large), of \<^verbatim>\<open>None\<close> a \<^verbatim>\<open>TypeError\<close>.
\<close>

definition py_float :: "pyval \<Rightarrow> exc + pyfloat" where
  "py_float v =
     (case v of
        PNone \<Rightarrow> Inl TypeError
      | PStr s \<Rightarrow> float_of_string s
      | PInt i \<Rightarrow> (case float_of_rat (of_int i) of Finite q \<Rightarrow> Inr (Finite q) | _ \<Rightarrow> Inl OverflowError))"

text \<open>\<^verbatim>\<open>int(x)\<close> of a float truncates towards zero; it raises on an infinity and on a NaN.\<close>

definition py_int :: "pyfloat \<Rightarrow> exc + int" where
  "py_int x =
     (case x of
        Finite q \<Rightarrow> Inr (if 0 \<le> q then \<lfloor>q\<rfloor> else \<lceil>q\<rceil>)
      | PosInf \<Rightarrow> Inl OverflowError
      | NegInf \<Rightarrow> Inl OverflowError
      | NaN \<Rightarrow> Inl ValueError)"

text \<open>The comparison \<^verbatim>\<open>x <= 0\<close>; it is false on a NaN.\<close>

definition float_le_zero :: "pyfloat \<Rightarrow> bool" where
  "float_le_zero x = (case x of Finite q \<Rightarrow> q \<le> 0 | PosInf \<Rightarrow> False | NegInf \<Rightarrow> True | NaN \<Rightarrow> False)"


section \<open>Dates\<close>

record datetime =
  year :: nat
  month :: nat
  day :: nat
  hour :: nat
  minute :: nat
  second :: nat
  microsecond :: nat

text \<open>
  \<^verbatim>\<open>datetime.strptime(data, format)\<close> turns the format into a regular expression,
  matches it at the start of the data, raises \<^verbatim>\<open>ValueError\<close> when there is no match
  or when the match leaves text over, and builds the date from the groups, which
  raises \<^verbatim>\<open>ValueError\<close> again when the date does not exist. A format is compiled to
  a list of items: a directive, a run of white space (the expression \<^verbatim>\<open>\s+\<close>) or a
  literal character. The six directives that the script uses are modelled, and the
  literal characters of its formats have no case.
\<close>

datatype fmt_item = Directive char | Whitespace | Literal char

definition digits :: string where
  "digits = ''0123456789''"

text \<open>
  The expression of a directive: its alternatives in their order, each a sequence
  of character classes.
  \<^verbatim>\<open>
  'd': r"(?P<d>3[0-1]|[1-2]\d|0[1-9]|[1-9]| [1-9])",
  'H': r"(?P<H>2[0-3]|[0-1]\d|\d)",
  'm': r"(?P<m>1[0-2]|0[1-9]|[1-9])",
  'M': r"(?P<M>[0-5]\d|\d)",
  'S': r"(?P<S>6[0-1]|[0-5]\d|\d)",
  'Y': r"(?P<Y>\d\d\d\d)",
  \<close>
\<close>

definition directive_regex :: "char \<Rightarrow> string list list option" where
  "directive_regex d =
     (if d = CHR ''d'' then
        Some [[''3'', ''01''], [''12'', digits], [''0'', ''123456789''], [''123456789''],
              ['' '', ''123456789'']]
      else if d = CHR ''H'' then Some [[''2'', ''0123''], [''01'', digits], [digits]]
      else if d = CHR ''m'' then Some [[''1'', ''012''], [''0'', ''123456789''], [''123456789'']]
      else if d = CHR ''M'' then Some [[''012345'', digits], [digits]]
      else if d = CHR ''S'' then Some [[''6'', ''01''], [''012345'', digits], [digits]]
      else if d = CHR ''Y'' then Some [[digits, digits, digits, digits]]
      else None)"

fun compile_format :: "string \<Rightarrow> fmt_item list option" where
  "compile_format [] = Some []"
| "compile_format [c] =
     (if c = CHR ''%'' then None
      else if is_space c then Some [Whitespace]
      else Some [Literal c])"
| "compile_format (c # d # cs) =
     (if c = CHR ''%'' then
        (if directive_regex d = None then None
         else map_option ((#) (Directive d)) (compile_format cs))
      else if is_space c then
        (if is_space d then compile_format (d # cs)
         else map_option ((#) Whitespace) (compile_format (d # cs)))
      else map_option ((#) (Literal c)) (compile_format (d # cs)))"

text \<open>One alternative against the start of a text: the matched text and the rest.\<close>

fun match_alt :: "string list \<Rightarrow> string \<Rightarrow> (string \<times> string) option" where
  "match_alt [] s = Some ([], s)"
| "match_alt (cls # ps) [] = None"
| "match_alt (cls # ps) (c # cs) =
     (if c \<in> set cls then map_option (\<lambda>(m, r). (c # m, r)) (match_alt ps cs) else None)"

text \<open>\<^verbatim>\<open>\s+\<close> is greedy: the rests after the longest run of white space first.\<close>

definition match_ws :: "string \<Rightarrow> string list" where
  "match_ws s = map (\<lambda>k. drop k s) (rev [1..<Suc (length (takeWhile is_space s))])"

text \<open>\<^verbatim>\<open>int(found_dict[...])\<close>: the digits of a group; a leading space is skipped.\<close>

definition group_int :: "string \<Rightarrow> nat" where
  "group_int m = nat_of_digits (filter is_digit m)"

text \<open>
  All the ways in which the items match at the start of a text, in the order in which
  a backtracking matcher finds them, each with the values of its groups and the rest
  of the text. The matcher of Python returns the first.
\<close>

fun match_items :: "fmt_item list \<Rightarrow> string \<Rightarrow> ((char \<times> nat) list \<times> string) list" where
  "match_items [] s = [([], s)]"
| "match_items (Literal c # its) s =
     (case s of [] \<Rightarrow> [] | x # xs \<Rightarrow> if x = c then match_items its xs else [])"
| "match_items (Whitespace # its) s = concat (map (match_items its) (match_ws s))"
| "match_items (Directive d # its) s =
     (case directive_regex d of
        None \<Rightarrow> []
      | Some alts \<Rightarrow>
          concat (map (\<lambda>(m, r). map (\<lambda>(fs, r'). ((d, group_int m) # fs, r')) (match_items its r))
                      (List.map_filter (\<lambda>a. match_alt a s) alts)))"

definition is_leap :: "nat \<Rightarrow> bool" where
  "is_leap y \<longleftrightarrow> y mod 4 = 0 \<and> (y mod 100 \<noteq> 0 \<or> y mod 400 = 0)"

definition days_in_month :: "nat \<Rightarrow> nat \<Rightarrow> nat" where
  "days_in_month y m =
     (if m = 2 then (if is_leap y then 29 else 28)
      else if m \<in> set [4, 6, 9, 11] then 30 else 31)"

text \<open>The constructor \<^verbatim>\<open>datetime(year, month, day, hour, minute, second)\<close>.\<close>

definition make_datetime :: "nat \<Rightarrow> nat \<Rightarrow> nat \<Rightarrow> nat \<Rightarrow> nat \<Rightarrow> nat \<Rightarrow> exc + datetime" where
  "make_datetime y mo d h mi s =
     (if 1 \<le> y \<and> y \<le> 9999 \<and> 1 \<le> mo \<and> mo \<le> 12 \<and> 1 \<le> d \<and> d \<le> days_in_month y mo
         \<and> h \<le> 23 \<and> mi \<le> 59 \<and> s \<le> 59
      then Inr \<lparr>year = y, month = mo, day = d, hour = h, minute = mi, second = s, microsecond = 0\<rparr>
      else Inl ValueError)"

definition group_value :: "(char \<times> nat) list \<Rightarrow> char \<Rightarrow> nat \<Rightarrow> nat" where
  "group_value fs k dflt = (case map_of fs k of None \<Rightarrow> dflt | Some v \<Rightarrow> v)"

definition strptime :: "string \<Rightarrow> string \<Rightarrow> exc + datetime" where
  "strptime data fmt =
     (case compile_format fmt of
        None \<Rightarrow> Inl ValueError
      | Some its \<Rightarrow>
          (case match_items its data of
             [] \<Rightarrow> Inl ValueError
           | (fs, rest) # _ \<Rightarrow>
               if rest \<noteq> [] then Inl ValueError
               else make_datetime (group_value fs (CHR ''Y'') 1900) (group_value fs (CHR ''m'') 1)
                      (group_value fs (CHR ''d'') 1) (group_value fs (CHR ''H'') 0)
                      (group_value fs (CHR ''M'') 0) (group_value fs (CHR ''S'') 0)))"

text \<open>
  \<^verbatim>\<open>
  def parse_date(date_str):
      try:
          formats = [
              '%Y-%m-%d %H:%M:%S',
              '%m/%d/%Y %H:%M',
              '%d/%m/%Y %H:%M',
          ]
          for fmt in formats:
              try:
                  return datetime.strptime(date_str.strip(), fmt)
              except ValueError:
                  continue
          return None
      except:
          return None
  \<close>
  The method \<^verbatim>\<open>strip\<close> exists on a \<^verbatim>\<open>str\<close> only; the inner handler lets every
  exception but \<^verbatim>\<open>ValueError\<close> through to the outer one.
\<close>

definition formats :: "string list" where
  "formats = [''%Y-%m-%d %H:%M:%S'', ''%m/%d/%Y %H:%M'', ''%d/%m/%Y %H:%M'']"

definition str_strip :: "pyval \<Rightarrow> exc + string" where
  "str_strip v = (case v of PStr s \<Rightarrow> Inr (py_strip s) | _ \<Rightarrow> Inl AttributeError)"

fun try_formats :: "string list \<Rightarrow> pyval \<Rightarrow> exc + datetime option" where
  "try_formats [] date_str = Inr None"
| "try_formats (fmt # fmts) date_str =
     (case str_strip date_str of
        Inl e \<Rightarrow> Inl e
      | Inr s \<Rightarrow>
          (case strptime s fmt of
             Inr d \<Rightarrow> Inr (Some d)
           | Inl e \<Rightarrow> if e = ValueError then try_formats fmts date_str else Inl e))"

definition parse_date :: "pyval \<Rightarrow> datetime option" where
  "parse_date date_str = (case try_formats formats date_str of Inl e \<Rightarrow> None | Inr r \<Rightarrow> r)"


section \<open>The row transformer\<close>

text \<open>
  A row of \<^verbatim>\<open>csv.DictReader\<close> is a dictionary from column names to values, and
  \<^verbatim>\<open>row.get(key, default)\<close> reads it. The tuple that the loop appends to the batch is
  a record of the eight columns of \<^verbatim>\<open>raw_transactions\<close>.
\<close>

type_synonym row = "string \<rightharpoonup> pyval"

definition row_get :: "row \<Rightarrow> string \<Rightarrow> pyval \<Rightarrow> pyval" where
  "row_get row key dflt = (case row key of None \<Rightarrow> dflt | Some v \<Rightarrow> v)"

record txn =
  invoice :: "string option"
  stock_code :: "string option"
  description :: "string option"
  quantity :: int
  invoice_date :: datetime
  price :: pyfloat
  customer_id :: "string option"
  country :: "string option"

text \<open>
  \<^verbatim>\<open>
  try:
      quantity = int(float(row.get('Quantity', 0) or 0))
  except:
      quantity = 1
  \<close>
\<close>

definition quantity_of :: "row \<Rightarrow> int" where
  "quantity_of row =
     (case py_float (py_or (row_get row ''Quantity'' (PInt 0)) (PInt 0)) of
        Inl e \<Rightarrow> 1
      | Inr x \<Rightarrow> (case py_int x of Inl e \<Rightarrow> 1 | Inr n \<Rightarrow> n))"

text \<open>
  \<^verbatim>\<open>
  invoice_date = parse_date(row.get('InvoiceDate', ''))
  if invoice_date is None:
      invoice_date = datetime.now()
  \<close>
  The reading of the clock is an argument.
\<close>

definition invoice_date_of :: "datetime \<Rightarrow> row \<Rightarrow> datetime" where
  "invoice_date_of now row =
     (case parse_date (row_get row ''InvoiceDate'' (PStr [])) of None \<Rightarrow> now | Some d \<Rightarrow> d)"

text \<open>
  \<^verbatim>\<open>
  try:
      price = float(row.get('Price', 0) or 0)
      if price <= 0:
          price = 0.01
  except:
      price = 0.01
  \<close>
  The literal \<^verbatim>\<open>0.01\<close> is the binary64 number nearest to 1/100.
\<close>

definition price_of :: "row \<Rightarrow> pyfloat" where
  "price_of row =
     (case py_float (py_or (row_get row ''Price'' (PInt 0)) (PInt 0)) of
        Inl e \<Rightarrow> float_of_rat (1 / 100)
      | Inr x \<Rightarrow> if float_le_zero x then float_of_rat (1 / 100) else x)"

text \<open>
  \<^verbatim>\<open>
  customer_id = clean_value(row.get('Customer ID', ''))
  if customer_id:
      try:
          customer_id = str(int(float(customer_id)))
      except:
          customer_id = None
  else:
      customer_id = None
  \<close>
\<close>

definition customer_id_of :: "row \<Rightarrow> string option" where
  "customer_id_of row =
     (case clean_value (row_get row ''Customer ID'' (PStr [])) of
        None \<Rightarrow> None
      | Some s \<Rightarrow>
          if s \<noteq> [] then
            (case py_float (PStr s) of
               Inl e \<Rightarrow> None
             | Inr x \<Rightarrow> (case py_int x of Inl e \<Rightarrow> None | Inr n \<Rightarrow> Some (str_int n)))
          else None)"

text \<open>
  Lines 82 to 127 of the loop body, from the first \<^verbatim>\<open>clean_value\<close> to the tuple. The
  result is a sum, as for every piece of code that the handler of the loop guards.
\<close>

definition transform_row :: "datetime \<Rightarrow> row \<Rightarrow> exc + txn" where
  "transform_row now row =
     Inr \<lparr>invoice = clean_value (row_get row ''Invoice'' (PStr [])),
          stock_code = clean_value (row_get row ''StockCode'' (PStr [])),
          description = clean_value (row_get row ''Description'' (PStr [])),
          quantity = quantity_of row,
          invoice_date = invoice_date_of now row,
          price = price_of row,
          customer_id = customer_id_of row,
          country = clean_value (row_get row ''Country'' (PStr []))\<rparr>"

section \<open>Storage\<close>

text \<open>
  The database is the other party of the script. Its state is the committed rows of
  the table, the rows inserted in the open transaction, a log of the calls made, and
  the outcome of each call to come: \<open>None\<close> for a call that succeeds, \<open>Some m\<close> for
  one that raises \<^verbatim>\<open>mysql.connector.Error\<close> with message \<open>m\<close>; when the list is used
  up every call succeeds. A call that raises changes nothing else.
\<close>

datatype db_call = Connect | ExecuteMany "txn list" | Commit | CountQuery | Close

record db_state =
  table :: "txn list"
  pending :: "txn list"
  faults :: "string option list"
  calls :: "db_call list"

definition storage_call :: "db_call \<Rightarrow> db_state \<Rightarrow> exc option \<times> db_state" where
  "storage_call c s =
     (case faults s of
        [] \<Rightarrow> (None, s\<lparr>calls := calls s @ [c]\<rparr>)
      | f # fs \<Rightarrow> (map_option MySQLError f, s\<lparr>faults := fs, calls := calls s @ [c]\<rparr>))"

definition connect :: "db_state \<Rightarrow> exc option \<times> db_state" where
  "connect s = storage_call Connect s"

definition executemany :: "db_state \<Rightarrow> txn list \<Rightarrow> exc option \<times> db_state" where
  "executemany s rows =
     (case storage_call (ExecuteMany rows) s of
        (Some e, s') \<Rightarrow> (Some e, s')
      | (None, s') \<Rightarrow> (None, s'\<lparr>pending := pending s' @ rows\<rparr>))"

definition commit :: "db_state \<Rightarrow> exc option \<times> db_state" where
  "commit s =
     (case storage_call Commit s of
        (Some e, s') \<Rightarrow> (Some e, s')
      | (None, s') \<Rightarrow> (None, s'\<lparr>table := table s' @ pending s', pending := []\<rparr>))"

definition count_query :: "db_state \<Rightarrow> (exc + nat) \<times> db_state" where
  "count_query s =
     (case storage_call CountQuery s of
        (Some e, s') \<Rightarrow> (Inl e, s')
      | (None, s') \<Rightarrow> (Inr (length (table s') + length (pending s')), s'))"

definition close :: "db_state \<Rightarrow> db_state" where
  "close s = s\<lparr>pending := [], calls := calls s @ [Close]\<rparr>"

text \<open>The batches handed to \<^verbatim>\<open>executemany\<close>, in the order of the calls.\<close>

definition flushed :: "db_state \<Rightarrow> txn list list" where
  "flushed s = List.map_filter (\<lambda>c. case c of ExecuteMany b \<Rightarrow> Some b | _ \<Rightarrow> None) (calls s)"

section \<open>The import loop and the driver\<close>

definition BATCH_SIZE :: nat where
  "BATCH_SIZE = 1000"

definition CSV_FILE :: string where
  "CSV_FILE = ''online_retail_II.csv''"

definition DB_CONFIG_database :: string where
  "DB_CONFIG_database = ''customer_analytics''"

text \<open>What the script prints: one constructor for each \<^verbatim>\<open>print\<close>, with the values it formats.\<close>

datatype event =
    Print_connected string
  | Print_reading string
  | Print_imported nat
  | Print_row_error exc
  | Print_completed
  | Print_total nat
  | Print_errors nat
  | Print_db_total nat
  | Print_database_error string
  | Print_file_not_found string
  | Print_ensure_same_directory
  | Print_unexpected exc
  | Print_banner
  | Print_ensure_current_directory
  | Prompt string
  | Print_cancelled
  | Print_next_steps

record loop_state =
  batch :: "txn list"
  row_count :: nat
  error_count :: nat
  printed :: "event list"
  db :: db_state

text \<open>
  \<^verbatim>\<open>
  cursor.executemany(insert_query, batch)
  conn.commit()
  row_count += len(batch)
  \<close>
  The three statements that the flush inside the loop and the flush after it share.
  An exception leaves the statements after it undone.
\<close>

definition flush :: "loop_state \<Rightarrow> exc option \<times> loop_state" where
  "flush st =
     (case executemany (db st) (batch st) of
        (Some e, s1) \<Rightarrow> (Some e, st\<lparr>db := s1\<rparr>)
      | (None, s1) \<Rightarrow>
          (case commit s1 of
             (Some e, s2) \<Rightarrow> (Some e, st\<lparr>db := s2\<rparr>)
           | (None, s2) \<Rightarrow> (None, st\<lparr>db := s2, row_count := row_count st + length (batch st)\<rparr>)))"

text \<open>
  The body of the \<^verbatim>\<open>try\<close> in the loop, for one row: the transformation, the
  \<^verbatim>\<open>batch.append\<close>, and the flush when the batch is full. It yields the exception
  raised, if any, and the state as the exception leaves it. The transformation is an
  argument of the loop; the script runs the loop on \<open>transform_row\<close>.
  \<^verbatim>\<open>
  batch.append((invoice, ..., country))
  if len(batch) >= BATCH_SIZE:
      cursor.executemany(insert_query, batch)
      conn.commit()
      row_count += len(batch)
      print(f"Imported {row_count} rows...")
      batch = []
  \<close>
\<close>

definition try_body :: "('r \<Rightarrow> exc + txn) \<Rightarrow> nat \<Rightarrow> loop_state \<Rightarrow> 'r \<Rightarrow> exc option \<times> loop_state" where
  "try_body tr bs st r =
     (case tr r of
        Inl e \<Rightarrow> (Some e, st)
      | Inr t \<Rightarrow>
          if bs \<le> length (batch st @ [t]) then
            (case flush (st\<lparr>batch := batch st @ [t]\<rparr>) of
               (Some e, st') \<Rightarrow> (Some e, st')
             | (None, st') \<Rightarrow>
                 (None, st'\<lparr>printed := printed st' @ [Print_imported (row_count st')], batch := []\<rparr>))
          else (None, st\<lparr>batch := batch st @ [t]\<rparr>))"

text \<open>
  \<^verbatim>\<open>
  except Exception as e:
      error_count += 1
      if error_count <= 10:  # Print first 10 errors
          print(f"Error processing row: {e}")
      continue
  \<close>
\<close>

definition process_row :: "('r \<Rightarrow> exc + txn) \<Rightarrow> nat \<Rightarrow> loop_state \<Rightarrow> 'r \<Rightarrow> loop_state" where
  "process_row tr bs st r =
     (case try_body tr bs st r of
        (None, st') \<Rightarrow> st'
      | (Some e, st') \<Rightarrow>
          st'\<lparr>error_count := error_count st' + 1,
              printed := printed st' @ (if error_count st' + 1 \<le> 10 then [Print_row_error e] else [])\<rparr>)"

primrec import_loop :: "('r \<Rightarrow> exc + txn) \<Rightarrow> nat \<Rightarrow> loop_state \<Rightarrow> 'r list \<Rightarrow> loop_state" where
  "import_loop tr bs st [] = st"
| "import_loop tr bs st (r # rs) = import_loop tr bs (process_row tr bs st r) rs"

text \<open>
  The world of a run: the rows of the CSV file, each with the reading of the clock
  that \<^verbatim>\<open>datetime.now()\<close> gives while it is handled, or \<open>None\<close> when the file does
  not exist; the answer typed at the prompt; the database.
\<close>

record env =
  csv_file :: "(datetime \<times> row) list option"
  response :: string
  database :: db_state

text \<open>
  The handlers at the end of \<^verbatim>\<open>import_data\<close>; each ends with \<^verbatim>\<open>sys.exit(1)\<close>.
\<close>

definition top_handler :: "exc \<Rightarrow> event list" where
  "top_handler e =
     (case e of
        MySQLError m \<Rightarrow> [Print_database_error m]
      | FileNotFoundError \<Rightarrow> [Print_file_not_found CSV_FILE, Print_ensure_same_directory]
      | _ \<Rightarrow> [Print_unexpected e])"

text \<open>
  \<^verbatim>\<open>
  # Insert remaining batch
  if batch:
      cursor.executemany(insert_query, batch)
      conn.commit()
      row_count += len(batch)
  \<close>
\<close>

definition final_flush :: "loop_state \<Rightarrow> exc option \<times> loop_state" where
  "final_flush st = (if batch st \<noteq> [] then flush st else (None, st))"

definition initial_state :: "db_state \<Rightarrow> loop_state" where
  "initial_state s =
     \<lparr>batch = [], row_count = 0, error_count = 0,
      printed = [Print_connected DB_CONFIG_database, Print_reading CSV_FILE], db = s\<rparr>"

text \<open>
  \<^verbatim>\<open>import_data\<close>, for a batch size: what it prints, the exit status when it ends the
  process, and the database.
\<close>

definition import_data_with :: "nat \<Rightarrow> env \<Rightarrow> event list \<times> nat option \<times> db_state" where
  "import_data_with bs w =
     (case connect (database w) of
        (Some e, s0) \<Rightarrow> (top_handler e, Some 1, s0)
      | (None, s0) \<Rightarrow>
          (case csv_file w of
             None \<Rightarrow> (printed (initial_state s0) @ top_handler FileNotFoundError, Some 1, s0)
           | Some rows \<Rightarrow>
               (case final_flush
                       (import_loop (\<lambda>(now, row). transform_row now row) bs (initial_state s0) rows) of
                  (Some e, st) \<Rightarrow> (printed st @ top_handler e, Some 1, db st)
                | (None, st) \<Rightarrow>
                    (case count_query (db st) of
                       (Inl e, s1) \<Rightarrow>
                         (printed st @ [Print_completed, Print_total (row_count st),
                            Print_errors (error_count st)] @ top_handler e, Some 1, s1)
                     | (Inr n, s1) \<Rightarrow>
                         (printed st @ [Print_completed, Print_total (row_count st),
                            Print_errors (error_count st), Print_db_total n], None, close s1)))))"

definition import_data :: "env \<Rightarrow> event list \<times> nat option \<times> db_state" where
  "import_data w = import_data_with BATCH_SIZE w"

text \<open>
  The script run as a program: what it prints, its exit status, and the database.
  \<^verbatim>\<open>
  if not os.path.exists(CSV_FILE):
      print(f"Error: CSV file '{CSV_FILE}' not found!")
      print("Please ensure the file is in the current directory.")
      sys.exit(1)
  response = input(f"Import data from '{CSV_FILE}'? (y/n): ")
  if response.lower() != 'y':
      print("Import cancelled.")
      sys.exit(0)
  import_data()
  \<close>
\<close>

definition main_with :: "nat \<Rightarrow> env \<Rightarrow> event list \<times> nat \<times> db_state" where
  "main_with bs w =
     (if csv_file w = None then
        ([Print_banner, Print_file_not_found CSV_FILE, Print_ensure_current_directory], 1, database w)
      else if py_lower (response w) \<noteq> ''y'' then
        ([Print_banner, Prompt CSV_FILE, Print_cancelled], 0, database w)
      else
        (case import_data_with bs w of
           (out, Some status, s) \<Rightarrow> ([Print_banner, Prompt CSV_FILE] @ out, status, s)
         | (out, None, s) \<Rightarrow> ([Print_banner, Prompt CSV_FILE] @ out @ [Print_next_steps], 0, s)))"

definition main :: "env \<Rightarrow> event list \<times> nat \<times> db_state" where
  "main w = main_with BATCH_SIZE w"


section \<open>Notions used to state the properties\<close>

text \<open>A float that is greater than zero; a NaN is not.\<close>

definition float_pos :: "pyfloat \<Rightarrow> bool" where
  "float_pos x = (case x of Finite q \<Rightarrow> 0 < q | PosInf \<Rightarrow> True | NegInf \<Rightarrow> False | NaN \<Rightarrow> False)"

text \<open>
  The date parser as the specification words it: the formats are tried in the order
  of the list, the first that parses gives the result, and the result is absent when
  none does.
\<close>

fun spec_first_parse :: "string list \<Rightarrow> string \<Rightarrow> datetime option" where
  "spec_first_parse [] s = None"
| "spec_first_parse (fmt # fmts) s =
     (case strptime s fmt of Inr d \<Rightarrow> Some d | Inl e \<Rightarrow> spec_first_parse fmts s)"

text \<open>
  The flushes as the specification words them: the records in input order, cut into
  batches of the batch size, with a last batch of whatever remains.
\<close>

function spec_batches :: "nat \<Rightarrow> 'a list \<Rightarrow> 'a list list" where
  "spec_batches n xs =
     (if xs = [] then []
      else if n = 0 \<or> length xs \<le> n then [xs]
      else take n xs # spec_batches n (drop n xs))"
  by pat_completeness auto
termination
  by (relation "measure (\<lambda>(n, xs). length xs)") auto

declare spec_batches.simps [simp del]

text \<open>Values for the examples: a reading of the clock, the row of the specification, a fresh database.\<close>

definition example_now :: datetime where
  "example_now =
     \<lparr>year = 2026, month = 11, day = 3, hour = 9, minute = 30, second = 0, microsecond = 0\<rparr>"

definition example_row :: row where
  "example_row =
     [''Invoice'' \<mapsto> PStr ''536365'', ''Quantity'' \<mapsto> PStr ''6'', ''Price'' \<mapsto> PStr ''2.55'',
      ''Customer ID'' \<mapsto> PStr ''17850.0'']"

definition example_txn :: txn where
  "example_txn =
     \<lparr>invoice = Some ''536365'', stock_code = None, description = None, quantity = 6,
      invoice_date = example_now, price = Finite (5742089524897382 / 2 ^ 51),
      customer_id = Some ''17850'', country = None\<rparr>"



definition empty_db :: db_state where
  "empty_db = \<lparr>table = [], pending = [], faults = [], calls = []\<rparr>"

section \<open>Evaluation of the library functions\<close>

lemma floor_rat_numeral_div: "\<lfloor>numeral a / numeral b :: rat\<rfloor> = numeral a div numeral b"
  by (metis floor_divide_of_int_eq of_int_numeral)

lemma floor_rat_one_div: "\<lfloor>1 / numeral b :: rat\<rfloor> = 1 div numeral b"
  by (metis floor_divide_of_int_eq of_int_1 of_int_numeral)

lemma ceiling_rat_numeral_div: "\<lceil>numeral a / numeral b :: rat\<rceil> = - (- numeral a div numeral b)"
  by (metis ceiling_def floor_divide_of_int_eq minus_divide_left of_int_minus of_int_numeral)

lemmas string_eval = py_strip_def is_space_def py_lower_def lower_char_def char_of_eq_iff
  py_str_def is_digit_def digit_val_def

lemmas float_eval = float_of_string_def parse_unsigned_def parse_decimal_def parse_exponent_def
  is_float_space_def nat_of_digits_def pow10_def float_of_rat_def binade_def pow2_def
  round_half_even_def round_to_ulp_def clog2_def ilog2.simps
  floor_rat_numeral_div floor_rat_one_div ceiling_rat_numeral_div

lemma float_0_01: "float_of_rat (1 / 100) = Finite (5764607523034235 / 2 ^ 59)"
  by (simp add: float_eval)

lemma float_2_55: "float_of_rat (255 / 100) = Finite (5742089524897382 / 2 ^ 51)"
  by (simp add: float_eval)

lemma py_float_zero: "py_float (PInt 0) = Inr (Finite 0)"
  by (simp add: py_float_def float_of_rat_def)

lemma py_float_empty: "py_float (PStr []) = Inl ValueError"
  by (simp add: py_float_def float_of_string_def)

lemma py_float_6: "py_float (PStr ''6'') = Inr (Finite 6)"
  by (simp add: py_float_def string_eval float_eval)

lemma py_float_2_55: "py_float (PStr ''2.55'') = Inr (Finite (5742089524897382 / 2 ^ 51))"
  by (simp add: py_float_def string_eval float_eval)

lemma py_float_17850: "py_float (PStr ''17850.0'') = Inr (Finite 17850)"
  by (simp add: py_float_def string_eval float_eval)

lemma py_float_0_005: "py_float (PStr ''0.005'') = Inr (Finite (5764607523034235 / 2 ^ 60))"
  by (simp add: py_float_def string_eval float_eval)

lemma py_float_abc: "py_float (PStr ''abc'') = Inl ValueError"
  by (simp add: py_float_def string_eval float_eval)

lemma py_float_nan: "py_float (PStr ''nan'') = Inr NaN"
  by (simp add: py_float_def string_eval float_eval)

lemma str_int_17850: "str_int 17850 = ''17850''"
  by (simp add: str_int_def str_nat.simps digit_char_def)

lemma parse_date_empty: "parse_date (PStr []) = None"
  by (simp add: parse_date_def formats_def str_strip_def strptime_def directive_regex_def
      digits_def match_ws_def py_strip_def)

lemma clean_value_empty: "clean_value (PStr []) = None"
  by (simp add: clean_value_def py_strip_def py_str_def)

lemma example_row_get:
  "row_get example_row ''Invoice'' d = PStr ''536365''"
  "row_get example_row ''StockCode'' d = d"
  "row_get example_row ''Description'' d = d"
  "row_get example_row ''Quantity'' d = PStr ''6''"
  "row_get example_row ''InvoiceDate'' d = d"
  "row_get example_row ''Price'' d = PStr ''2.55''"
  "row_get example_row ''Customer ID'' d = PStr ''17850.0''"
  "row_get example_row ''Country'' d = d"
  by (simp_all add: row_get_def example_row_def)

lemma clean_value_examples:
  "clean_value (PStr ''536365'') = Some ''536365''"
  "clean_value (PStr ''17850.0'') = Some ''17850.0''"
  by (simp_all add: clean_value_def string_eval)

lemma transform_example_row: "transform_row example_now example_row = Inr example_txn"
  by (simp add: transform_row_def example_txn_def example_row_get clean_value_empty parse_date_empty
      clean_value_examples quantity_of_def price_of_def customer_id_of_def invoice_date_of_def
      py_or_def truthy_def py_float_6 py_float_2_55 py_float_17850 py_int_def float_le_zero_def
      str_int_17850)


lemma last_dropWhile: "dropWhile P xs \<noteq> [] \<Longrightarrow> last (dropWhile P xs) = last xs"
  by (induction xs) (auto split: if_splits)

lemma py_strip_hd: "py_strip s \<noteq> [] \<Longrightarrow> \<not> is_space (hd (py_strip s))"
  unfolding py_strip_def
  by (metis Nil_is_rev_conv dropWhile.simps(1) hd_dropWhile hd_rev last_dropWhile last_rev)

lemma py_strip_last: "py_strip s \<noteq> [] \<Longrightarrow> \<not> is_space (last (py_strip s))"
  unfolding py_strip_def by (simp add: last_rev hd_dropWhile)

lemma clean_value_Some: "clean_value v = Some s \<Longrightarrow> s \<noteq> [] \<and> s = py_strip (py_str v)"
  by (auto simp: clean_value_def Let_def split: if_splits)

lemma float_pos_not_le_zero: "\<not> float_le_zero x \<Longrightarrow> x \<noteq> NaN \<Longrightarrow> float_pos x"
  by (cases x) (auto simp: float_le_zero_def float_pos_def)

lemma float_pos_0_01: "float_pos (float_of_rat (1 / 100))"
  by (simp add: float_0_01 float_pos_def)

section \<open>The value normalizer\<close>

text \<open>
  C8. The value normalizer is a function on every value, with no error case. It
  returns absent when the value is \<^verbatim>\<open>None\<close>, when its text is empty once trimmed, or
  when its trimmed text equals \<^verbatim>\<open>nan\<close> up to case; otherwise it returns the text of the
  value, trimmed: it is not empty and has no white space at either end.
\<close>

theorem clean_value_normalizes:
  "clean_value v =
     (if v = PNone \<or> py_strip (py_str v) = [] \<or> py_lower (py_strip (py_str v)) = ''nan''
      then None else Some (py_strip (py_str v)))
   \<and> (\<forall>s. clean_value v = Some s \<longrightarrow> s \<noteq> [] \<and> \<not> is_space (hd s) \<and> \<not> is_space (last s))"
proof (rule conjI)
  show "clean_value v =
     (if v = PNone \<or> py_strip (py_str v) = [] \<or> py_lower (py_strip (py_str v)) = ''nan''
      then None else Some (py_strip (py_str v)))"
    by (simp add: clean_value_def Let_def)
next
  show "\<forall>s. clean_value v = Some s \<longrightarrow> s \<noteq> [] \<and> \<not> is_space (hd s) \<and> \<not> is_space (last s)"
  proof (intro allI impI)
    fix s
    assume "clean_value v = Some s"
    then have s: "s \<noteq> []" "s = py_strip (py_str v)"
      using clean_value_Some by blast+
    from s have "\<not> is_space (hd s)"
      using py_strip_hd [of "py_str v"] by simp
    moreover from s have "\<not> is_space (last s)"
      using py_strip_last [of "py_str v"] by simp
    ultimately show "s \<noteq> [] \<and> \<not> is_space (hd s) \<and> \<not> is_space (last s)"
      using s(1) by simp
  qed
qed

theorem clean_value_normalizes_witness:
  "clean_value (PStr '' 17850.0 '') = Some ''17850.0'' \<and> \<not> is_space (hd ''17850.0'')
   \<and> clean_value (PStr '' NaN '') = None \<and> clean_value PNone = None"
  using clean_value_normalizes [of "PStr '' 17850.0 ''"] clean_value_normalizes [of "PStr '' NaN ''"]
    clean_value_normalizes [of PNone]
  by (simp add: string_eval)

section \<open>Quantity and price\<close>

text \<open>
  C4, as the claim states it, fails on an empty \<^verbatim>\<open>Quantity\<close> field: the empty text does
  not parse as a floating-point number, and the quantity is 0, not 1.
\<close>

theorem quantity_empty_counterexample:
  "py_float (PStr []) = Inl ValueError
   \<and> quantity (projr (transform_row example_now [''Quantity'' \<mapsto> PStr []])) = 0"
  by (simp add: py_float_empty transform_row_def quantity_of_def row_get_def py_or_def truthy_def
      py_float_zero py_int_def)

text \<open>
  C4, amended. Every row gives a record, and its quantity is an integer: 0 when the
  \<^verbatim>\<open>Quantity\<close> field is missing, \<^verbatim>\<open>None\<close> or empty; otherwise the field parsed as a
  floating-point number and truncated towards zero, or 1 when that fails.
\<close>

theorem quantity_amended:
  "\<exists>t. transform_row now row = Inr t
     \<and> quantity t =
         (if \<not> truthy (row_get row ''Quantity'' (PInt 0)) then 0
          else case py_float (row_get row ''Quantity'' (PInt 0)) of
                 Inl e \<Rightarrow> 1
               | Inr x \<Rightarrow> (case py_int x of Inl e \<Rightarrow> 1 | Inr n \<Rightarrow> n))
     \<and> (\<forall>q. truthy (row_get row ''Quantity'' (PInt 0))
            \<and> py_float (row_get row ''Quantity'' (PInt 0)) = Inr (Finite q)
          \<longrightarrow> quantity t = (if 0 \<le> q then \<lfloor>q\<rfloor> else \<lceil>q\<rceil>))"
  by (simp add: transform_row_def quantity_of_def py_or_def py_float_zero py_int_def)

theorem quantity_amended_witness:
  "\<exists>t. transform_row example_now example_row = Inr t \<and> quantity t = 6"
  using quantity_amended [of example_now example_row]
  by (simp add: example_row_get truthy_def py_float_6 py_int_def)

text \<open>
  C3, as the claim states it, fails on the price \<^verbatim>\<open>0.005\<close>: it parses, it is greater
  than zero, and it is kept, so the price of the record is below 0.01.
\<close>

theorem price_below_floor_counterexample:
  "price (projr (transform_row example_now [''Price'' \<mapsto> PStr ''0.005'']))
     = Finite (5764607523034235 / 2 ^ 60)
   \<and> (5764607523034235 / 2 ^ 60 :: rat) < 1 / 100
   \<and> float_of_rat (1 / 100) = Finite (5764607523034235 / 2 ^ 59)"
  by (simp add: transform_row_def price_of_def row_get_def py_or_def truthy_def py_float_0_005
      float_le_zero_def float_0_01)

text \<open>
  C3, amended. Every row gives a record, and its price is a float: 0.01 when the
  \<^verbatim>\<open>Price\<close> field is missing, \<^verbatim>\<open>None\<close> or empty, when it does not parse, or when it
  parses to a number that is at most 0; otherwise the parsed number. A price that is
  a number is greater than zero; it can be below 0.01.
\<close>

theorem price_amended:
  "\<exists>t. transform_row now row = Inr t
     \<and> price t =
         (if \<not> truthy (row_get row ''Price'' (PInt 0)) then float_of_rat (1 / 100)
          else case py_float (row_get row ''Price'' (PInt 0)) of
                 Inl e \<Rightarrow> float_of_rat (1 / 100)
               | Inr x \<Rightarrow> if float_le_zero x then float_of_rat (1 / 100) else x)
     \<and> (price t \<noteq> NaN \<longrightarrow> float_pos (price t))"
proof -
  have "price_of row \<noteq> NaN \<Longrightarrow> float_pos (price_of row)"
    using float_pos_0_01 float_pos_not_le_zero
    by (auto simp: price_of_def split: sum.splits if_splits)
  then show ?thesis
    by (simp add: transform_row_def price_of_def py_or_def py_float_zero float_le_zero_def)
qed

theorem price_amended_witness:
  "\<exists>t. transform_row example_now example_row = Inr t
     \<and> price t = Finite (5742089524897382 / 2 ^ 51) \<and> float_pos (price t)"
  using price_amended [of example_now example_row]
  by (auto simp add: example_row_get truthy_def py_float_2_55 float_le_zero_def)

text \<open>
  C7. The row with invoice 536365, quantity 6, price 2.55 and customer id 17850.0
  gives a record with quantity 6, with the float 2.55 as price, and with customer id
  17850. In every row, a customer id that the normalizer keeps is replaced by the
  text of its number truncated to an integer, and is absent when that fails.
\<close>

theorem example_row_transformed:
  "(\<exists>t. transform_row now example_row = Inr t \<and> quantity t = 6
       \<and> price t = float_of_rat (255 / 100) \<and> customer_id t = Some ''17850'')
   \<and> (\<exists>t. transform_row now row = Inr t
         \<and> customer_id t =
             (case clean_value (row_get row ''Customer ID'' (PStr [])) of
                None \<Rightarrow> None
              | Some s \<Rightarrow>
                  (case py_float (PStr s) of
                     Inl e \<Rightarrow> None
                   | Inr x \<Rightarrow> (case py_int x of Inl e \<Rightarrow> None | Inr n \<Rightarrow> Some (str_int n)))))"
proof -
  have "clean_value v = Some s \<Longrightarrow> s \<noteq> []" for v s
    using clean_value_Some by blast
  then have "\<exists>t. transform_row now row = Inr t
         \<and> customer_id t =
             (case clean_value (row_get row ''Customer ID'' (PStr [])) of
                None \<Rightarrow> None
              | Some s \<Rightarrow>
                  (case py_float (PStr s) of
                     Inl e \<Rightarrow> None
                   | Inr x \<Rightarrow> (case py_int x of Inl e \<Rightarrow> None | Inr n \<Rightarrow> Some (str_int n))))"
    by (auto simp: transform_row_def customer_id_of_def split: option.splits)
  moreover have "transform_row now example_row = Inr (example_txn\<lparr>invoice_date := now\<rparr>)"
    by (simp add: transform_row_def example_txn_def example_row_get clean_value_examples
        clean_value_empty parse_date_empty invoice_date_of_def quantity_of_def
        price_of_def customer_id_of_def py_or_def truthy_def py_float_6 py_float_2_55
        py_float_17850 py_int_def float_le_zero_def str_int_17850)
  moreover have "price (example_txn\<lparr>invoice_date := now\<rparr>) = float_of_rat (255 / 100)"
    unfolding float_2_55 by (simp add: example_txn_def)
  moreover have "quantity (example_txn\<lparr>invoice_date := now\<rparr>) = 6"
    "customer_id (example_txn\<lparr>invoice_date := now\<rparr>) = Some ''17850''"
    by (simp_all add: example_txn_def)
  ultimately show ?thesis by blast
qed

theorem example_row_transformed_witness:
  "\<exists>t. transform_row example_now [''Customer ID'' \<mapsto> PStr ''abc''] = Inr t \<and> customer_id t = None"
  using example_row_transformed [of example_now "[''Customer ID'' \<mapsto> PStr ''abc'']"]
  by (auto simp add: row_get_def clean_value_def string_eval py_float_abc)


section \<open>The date parser\<close>


lemma strptime_Inl: "strptime s fmt = Inl e \<Longrightarrow> e = ValueError"
  by (auto simp: strptime_def make_datetime_def split: option.splits list.splits if_splits)

lemma try_formats_str: "try_formats fmts (PStr s) = Inr (spec_first_parse fmts (py_strip s))"
proof (induction fmts)
  case Nil
  show ?case by simp
next
  case (Cons fmt fmts)
  show ?case
  proof (cases "strptime (py_strip s) fmt")
    case (Inl e)
    then have "e = ValueError" by (rule strptime_Inl)
    with Inl Cons show ?thesis by (simp add: str_strip_def)
  next
    case (Inr d)
    then show ?thesis by (simp add: str_strip_def)
  qed
qed

lemma parse_date_str: "parse_date (PStr s) = spec_first_parse formats (py_strip s)"
  by (simp add: parse_date_def try_formats_str)

lemma parse_date_not_str: "parse_date PNone = None" "parse_date (PInt i) = None"
  by (simp_all add: parse_date_def formats_def str_strip_def)

lemma compile_formats:
  "compile_format ''%Y-%m-%d %H:%M:%S'' =
     Some [Directive (CHR ''Y''), Literal (CHR ''-''), Directive (CHR ''m''), Literal (CHR ''-''),
           Directive (CHR ''d''), Whitespace, Directive (CHR ''H''), Literal (CHR '':''),
           Directive (CHR ''M''), Literal (CHR '':''), Directive (CHR ''S'')]"
  "compile_format ''%m/%d/%Y %H:%M'' =
     Some [Directive (CHR ''m''), Literal (CHR ''/''), Directive (CHR ''d''), Literal (CHR ''/''),
           Directive (CHR ''Y''), Whitespace, Directive (CHR ''H''), Literal (CHR '':''),
           Directive (CHR ''M'')]"
  "compile_format ''%d/%m/%Y %H:%M'' =
     Some [Directive (CHR ''d''), Literal (CHR ''/''), Directive (CHR ''m''), Literal (CHR ''/''),
           Directive (CHR ''Y''), Whitespace, Directive (CHR ''H''), Literal (CHR '':''),
           Directive (CHR ''M'')]"
  by (simp_all add: directive_regex_def is_space_def)

lemma match_alt_Some:
  "match_alt ps s = Some (m, r) \<Longrightarrow>
     s = m @ r \<and> length m = length ps \<and> (\<forall>i < length ps. s ! i \<in> set (ps ! i))"
proof (induction ps s arbitrary: m r rule: match_alt.induct)
  case (1 s)
  then show ?case by simp
next
  case (2 cls ps)
  then show ?case by simp
next
  case (3 cls ps c cs)
  from "3.prems" obtain m' where c: "c \<in> set cls" and m': "match_alt ps cs = Some (m', r)" "m = c # m'"
    by (auto split: if_splits)
  from "3.IH" [OF c m'(1)] have ih: "cs = m' @ r" "length m' = length ps" "\<forall>i<length ps. cs ! i \<in> set (ps ! i)"
    by blast+
  show ?case
  proof (intro conjI allI impI)
    show "c # cs = m @ r" using ih m' by simp
    show "length m = length (cls # ps)" using ih m' by simp
    fix i assume "i < length (cls # ps)"
    then show "(c # cs) ! i \<in> set ((cls # ps) ! i)"
      using c ih(3) by (cases i) simp_all
  qed
qed

lemma match_items_Directive:
  "match_items (Directive d # its) s \<noteq> [] \<Longrightarrow>
     \<exists>alts a m r. directive_regex d = Some alts \<and> a \<in> set alts \<and> match_alt a s = Some (m, r)
        \<and> match_items its r \<noteq> []"
  by (auto simp: map_filter_def split: option.splits)

lemma match_items_Literal:
  "match_items (Literal c # its) s \<noteq> [] \<Longrightarrow> \<exists>r. s = c # r"
  by (auto split: list.splits if_splits)


lemma slash_not_digit: "CHR ''/'' \<notin> set digits"
  by (simp add: digits_def)

lemma year_first_needs_digits:
  assumes "match_items (Directive (CHR ''Y'') # its) s \<noteq> []"
  shows "\<forall>i<4. s ! i \<in> set digits"
proof -
  from match_items_Directive [OF assms] obtain a m r where
    a: "a \<in> set [[digits, digits, digits, digits]]" and m: "match_alt a s = Some (m, r)"
    by (auto simp: directive_regex_def)
  from a have a': "a = [digits, digits, digits, digits]" by simp
  from match_alt_Some [OF m] have all: "\<forall>i<length a. s ! i \<in> set (a ! i)" by blast
  show ?thesis
  proof (intro allI impI)
    fix i :: nat
    assume "i < 4"
    then have i: "i < length a" by (simp add: a')
    then have "a ! i \<in> set a" by (rule nth_mem)
    then have "a ! i = digits" by (simp add: a')
    with all i show "s ! i \<in> set digits" by auto
  qed
qed

lemma alt_then_slash:
  assumes m: "match_alt a s = Some (m, r)" and its: "match_items (Literal (CHR ''/'') # its) r \<noteq> []"
  shows "length a < length s \<and> s ! length a = CHR ''/''"
proof -
  from match_items_Literal [OF its] obtain r' where r: "r = CHR ''/'' # r'" by blast
  from match_alt_Some [OF m] have s: "s = m @ r" "length m = length a" by blast+
  then show ?thesis using r by (simp add: nth_append)
qed

lemma month_first_has_slash:
  assumes "match_items (Directive (CHR ''m'') # Literal (CHR ''/'') # its) s \<noteq> []"
  shows "\<exists>i<3. s ! i = CHR ''/''"
proof -
  from match_items_Directive [OF assms] obtain alts a m r where
    alts: "directive_regex (CHR ''m'') = Some alts" and a: "a \<in> set alts" and
    m: "match_alt a s = Some (m, r)" and its: "match_items (Literal (CHR ''/'') # its) r \<noteq> []"
    by blast
  from alts a have "length a \<le> 2" by (auto simp: directive_regex_def)
  moreover from alt_then_slash [OF m its] have "s ! length a = CHR ''/''" by blast
  ultimately show ?thesis
    by (intro exI [of _ "length a"]) simp
qed

lemma strptime_Inr_match:
  "strptime s fmt = Inr d \<Longrightarrow> compile_format fmt = Some its \<Longrightarrow> match_items its s \<noteq> []"
  by (auto simp: strptime_def split: list.splits)

lemma month_first_excludes_year_first:
  assumes "strptime s ''%m/%d/%Y %H:%M'' = Inr d"
  shows "strptime s ''%Y-%m-%d %H:%M:%S'' = Inl ValueError"
proof (cases "strptime s ''%Y-%m-%d %H:%M:%S''")
  case (Inl e)
  then show ?thesis using strptime_Inl by blast
next
  case (Inr d')
  from strptime_Inr_match [OF assms compile_formats(2)] have "\<exists>i<3. s ! i = CHR ''/''"
    by (rule month_first_has_slash)
  then obtain i where i: "i < 3" "s ! i = CHR ''/''"
    by blast
  from strptime_Inr_match [OF Inr compile_formats(1)] have "\<forall>i<4. s ! i \<in> set digits"
    by (rule year_first_needs_digits)
  moreover from i(1) have "i < 4" by simp
  ultimately have "s ! i \<in> set digits" by blast
  with i(2) have False
    using slash_not_digit by simp
  then show ?thesis ..
qed


lemmas strptime_eval = strptime_def compile_formats directive_regex_def digits_def match_ws_def
  is_space_def map_filter_def group_int_def nat_of_digits_def digit_val_def is_digit_def
  group_value_def make_datetime_def days_in_month_def is_leap_def

lemma strptime_ambiguous:
  "strptime ''03/04/2021 10:30'' ''%m/%d/%Y %H:%M'' =
     Inr \<lparr>year = 2021, month = 3, day = 4, hour = 10, minute = 30, second = 0, microsecond = 0\<rparr>"
  "strptime ''03/04/2021 10:30'' ''%d/%m/%Y %H:%M'' =
     Inr \<lparr>year = 2021, month = 4, day = 3, hour = 10, minute = 30, second = 0, microsecond = 0\<rparr>"
  by (simp_all add: strptime_eval)

lemma py_strip_ambiguous: "py_strip '' 03/04/2021 10:30 '' = ''03/04/2021 10:30''"
  by (simp add: py_strip_def is_space_def)

text \<open>
  C5. On a text, the date parser tries the three formats year-month-day with
  seconds, month/day/year and day/month/year in this order on the trimmed text and
  returns the first parse that succeeds, or absent when none does; on a value that is
  not a text it returns absent. A text that both formats with slashes parse is read
  as month/day.
\<close>

theorem parse_date_first_match:
  "parse_date (PStr s) =
     spec_first_parse [''%Y-%m-%d %H:%M:%S'', ''%m/%d/%Y %H:%M'', ''%d/%m/%Y %H:%M''] (py_strip s)
   \<and> parse_date PNone = None
   \<and> (\<forall>d2 d3. strptime (py_strip s) ''%m/%d/%Y %H:%M'' = Inr d2
          \<and> strptime (py_strip s) ''%d/%m/%Y %H:%M'' = Inr d3
        \<longrightarrow> parse_date (PStr s) = Some d2)"
proof (intro conjI allI impI)
  show "parse_date (PStr s) =
     spec_first_parse [''%Y-%m-%d %H:%M:%S'', ''%m/%d/%Y %H:%M'', ''%d/%m/%Y %H:%M''] (py_strip s)"
    using parse_date_str [of s] by (simp only: formats_def)
  show "parse_date PNone = None"
    by (rule parse_date_not_str)
next
  fix d2 d3
  assume a: "strptime (py_strip s) ''%m/%d/%Y %H:%M'' = Inr d2
          \<and> strptime (py_strip s) ''%d/%m/%Y %H:%M'' = Inr d3"
  then have "strptime (py_strip s) ''%Y-%m-%d %H:%M:%S'' = Inl ValueError"
    using month_first_excludes_year_first by blast
  with a show "parse_date (PStr s) = Some d2"
    by (simp add: parse_date_str formats_def)
qed

theorem parse_date_first_match_witness:
  "parse_date (PStr '' 03/04/2021 10:30 '') =
     Some \<lparr>year = 2021, month = 3, day = 4, hour = 10, minute = 30, second = 0, microsecond = 0\<rparr>
   \<and> strptime ''03/04/2021 10:30'' ''%d/%m/%Y %H:%M'' =
     Inr \<lparr>year = 2021, month = 4, day = 3, hour = 10, minute = 30, second = 0, microsecond = 0\<rparr>"
proof -
  have "strptime ''03/04/2021 10:30'' ''%m/%d/%Y %H:%M'' =
      Inr \<lparr>year = 2021, month = 3, day = 4, hour = 10, minute = 30, second = 0, microsecond = 0\<rparr>
    \<and> strptime ''03/04/2021 10:30'' ''%d/%m/%Y %H:%M'' =
      Inr \<lparr>year = 2021, month = 4, day = 3, hour = 10, minute = 30, second = 0, microsecond = 0\<rparr>"
    by (simp add: strptime_ambiguous)
  then have "parse_date (PStr '' 03/04/2021 10:30 '') =
     Some \<lparr>year = 2021, month = 3, day = 4, hour = 10, minute = 30, second = 0, microsecond = 0\<rparr>"
    using parse_date_first_match [of "'' 03/04/2021 10:30 ''"]
    unfolding py_strip_ambiguous by blast
  then show ?thesis
    by (simp add: strptime_ambiguous)
qed



lemma lower_char_y: "lower_char c = CHR ''y'' \<longleftrightarrow> c = CHR ''y'' \<or> c = CHR ''Y''"
proof -
  define n where "n = (of_char c :: nat)"
  have n: "n < 256" by (simp add: n_def)
  have c: "c = char_of n" by (simp add: n_def)
  have y: "c = CHR ''y'' \<longleftrightarrow> n = 121"
    using n by (simp add: c char_of_eq_iff take_bit_eq_mod)
  have Y: "c = CHR ''Y'' \<longleftrightarrow> n = 89"
    using n by (simp add: c char_of_eq_iff take_bit_eq_mod)
  have up: "char_of (n + 32) = CHR ''y'' \<longleftrightarrow> n = 89" if "n \<le> 222"
    using that by (simp add: char_of_eq_iff take_bit_eq_mod)
  have "lower_char c = (if (65 \<le> n \<and> n \<le> 90) \<or> (192 \<le> n \<and> n \<le> 222 \<and> n \<noteq> 215) then char_of (n + 32) else c)"
    by (simp add: lower_char_def Let_def n_def)
  then show ?thesis
    using up y Y by auto
qed

lemma py_lower_y: "py_lower s = ''y'' \<longleftrightarrow> s = ''y'' \<or> s = ''Y''"
  by (cases s) (auto simp: py_lower_def lower_char_y)


section \<open>The import loop\<close>

lemma storage_call_exc: "storage_call c s = (Some e, s') \<Longrightarrow> \<exists>m. e = MySQLError m"
  by (auto simp: storage_call_def split: list.splits)

lemma flush_exc: "flush st = (Some e, st') \<Longrightarrow> \<exists>m. e = MySQLError m"
  by (auto simp: flush_def executemany_def commit_def split: prod.splits option.splits
      dest: storage_call_exc)

lemma storage_call_ok: "faults s = [] \<Longrightarrow> storage_call c s = (None, s\<lparr>calls := calls s @ [c]\<rparr>)"
  by (simp add: storage_call_def)

lemma flush_ok:
  "faults (db st) = [] \<Longrightarrow>
   flush st =
     (None, st\<lparr>db := (db st)\<lparr>calls := calls (db st) @ [ExecuteMany (batch st), Commit],
                           table := table (db st) @ pending (db st) @ batch st, pending := []\<rparr>,
               row_count := row_count st + length (batch st)\<rparr>)"
  by (simp add: flush_def executemany_def commit_def storage_call_ok)

lemma flushed_calls_append:
  "flushed (s\<lparr>calls := calls s @ cs\<rparr>) =
     flushed s @ List.map_filter (\<lambda>c. case c of ExecuteMany b \<Rightarrow> Some b | _ \<Rightarrow> None) cs"
  by (simp add: flushed_def map_filter_def)

lemma process_row_no_flush:
  "tr r = Inr t \<Longrightarrow> length (batch st) + 1 < bs \<Longrightarrow>
   process_row tr bs st r = st\<lparr>batch := batch st @ [t]\<rparr>"
  by (simp add: process_row_def try_body_def)

lemma process_row_flush_ok:
  "tr r = Inr t \<Longrightarrow> bs \<le> length (batch st) + 1 \<Longrightarrow> faults (db st) = [] \<Longrightarrow>
   process_row tr bs st r =
     st\<lparr>batch := [],
        row_count := row_count st + (length (batch st) + 1),
        printed := printed st @ [Print_imported (row_count st + (length (batch st) + 1))],
        db := (db st)\<lparr>calls := calls (db st) @ [ExecuteMany (batch st @ [t]), Commit],
                       table := table (db st) @ pending (db st) @ batch st @ [t], pending := []\<rparr>\<rparr>"
  by (simp add: process_row_def try_body_def flush_ok)

lemma import_loop_append:
  "import_loop tr bs st (xs @ ys) = import_loop tr bs (import_loop tr bs st xs) ys"
  by (induction xs arbitrary: st) simp_all

lemma import_loop_no_flush:
  "\<forall>r \<in> set rows. tr r = Inr (f r) \<Longrightarrow> length (batch st) + length rows < bs \<Longrightarrow>
   import_loop tr bs st rows = st\<lparr>batch := batch st @ map f rows\<rparr>"
proof (induction rows arbitrary: st)
  case Nil
  then show ?case by simp
next
  case (Cons r rows)
  from Cons.prems have step: "process_row tr bs st r = st\<lparr>batch := batch st @ [f r]\<rparr>"
    by (intro process_row_no_flush) simp_all
  from Cons.prems have "import_loop tr bs (st\<lparr>batch := batch st @ [f r]\<rparr>) rows =
      st\<lparr>batch := batch st @ [f r]\<rparr>\<lparr>batch := batch (st\<lparr>batch := batch st @ [f r]\<rparr>) @ map f rows\<rparr>"
    by (intro Cons.IH) simp_all
  with step show ?case by simp
qed

lemma spec_batches_short: "length xs \<le> n \<Longrightarrow> spec_batches n xs = (if xs = [] then [] else [xs])"
  by (simp add: spec_batches.simps)

lemma spec_batches_full:
  assumes "0 < n" "length c = n"
  shows "spec_batches n (c @ xs) = c # spec_batches n xs"
proof (cases "xs = []")
  case True
  from assms have "c \<noteq> []" by auto
  with assms True show ?thesis
    by (simp add: spec_batches_short)
next
  case False
  with assms show ?thesis
    by (simp add: spec_batches.simps [of n "c @ xs"])
qed

lemma concat_spec_batches: "concat (spec_batches n xs) = xs"
proof (induction n xs rule: spec_batches.induct)
  case (1 n xs)
  show ?case
  proof (cases "xs = [] \<or> n = 0 \<or> length xs \<le> n")
    case True
    then show ?thesis by (auto simp: spec_batches.simps [of n xs])
  next
    case False
    with 1 have "concat (spec_batches n (drop n xs)) = drop n xs" by simp
    with False show ?thesis by (simp add: spec_batches.simps [of n xs])
  qed
qed

lemma spec_batches_2_5:
  assumes "length xs = 5"
  shows "map length (spec_batches 2 xs) = [2, 2, 1]"
proof -
  have "xs = take 2 xs @ take 2 (drop 2 xs) @ drop 4 xs"
    by (metis append_take_drop_id drop_drop numeral_Bit0)
  then have "spec_batches 2 xs = spec_batches 2 (take 2 xs @ take 2 (drop 2 xs) @ drop 4 xs)"
    by simp
  also have "\<dots> = take 2 xs # spec_batches 2 (take 2 (drop 2 xs) @ drop 4 xs)"
    using assms by (intro spec_batches_full) simp_all
  also have "spec_batches 2 (take 2 (drop 2 xs) @ drop 4 xs) =
      take 2 (drop 2 xs) # spec_batches 2 (drop 4 xs)"
    using assms by (intro spec_batches_full) simp_all
  also have "spec_batches 2 (drop 4 xs) = [drop 4 xs]"
    using assms by (auto simp: spec_batches_short)
  finally show ?thesis
    using assms by simp
qed


text \<open>
  The loop on a database that raises nothing, when every row transforms: what has
  been flushed, with the batch still held, is the records cut into batches.
\<close>

lemma import_loop_fault_free:
  assumes bs: "0 < bs" and tr: "\<forall>r \<in> set rows. tr r = Inr (f r)"
  shows "faults (db st) = [] \<Longrightarrow> pending (db st) = [] \<Longrightarrow> length (batch st) < bs \<Longrightarrow>
     flushed (db (import_loop tr bs st rows)) @ spec_batches bs (batch (import_loop tr bs st rows))
       = flushed (db st) @ spec_batches bs (batch st @ map f rows)
     \<and> table (db (import_loop tr bs st rows)) @ batch (import_loop tr bs st rows)
       = table (db st) @ batch st @ map f rows
     \<and> row_count (import_loop tr bs st rows) + length (batch (import_loop tr bs st rows))
       = row_count st + length (batch st) + length rows
     \<and> error_count (import_loop tr bs st rows) = error_count st
     \<and> faults (db (import_loop tr bs st rows)) = []
     \<and> pending (db (import_loop tr bs st rows)) = []
     \<and> length (batch (import_loop tr bs st rows)) < bs"
  using tr
proof (induction rows arbitrary: st)
  case Nil
  then show ?case by simp
next
  case (Cons r rows)
  from Cons.prems have r: "tr r = Inr (f r)" and rows: "\<forall>r \<in> set rows. tr r = Inr (f r)"
    by simp_all
  show ?case
  proof (cases "length (batch st) + 1 < bs")
    case True
    let ?st1 = "st\<lparr>batch := batch st @ [f r]\<rparr>"
    have step: "process_row tr bs st r = ?st1"
      using r True by (rule process_row_no_flush)
    have "faults (db ?st1) = []" "pending (db ?st1) = []" "length (batch ?st1) < bs"
      using Cons.prems True by simp_all
    from Cons.IH [OF this rows] show ?thesis
      by (simp add: step)
  next
    case False
    let ?st1 = "st\<lparr>batch := [],
        row_count := row_count st + (length (batch st) + 1),
        printed := printed st @ [Print_imported (row_count st + (length (batch st) + 1))],
        db := (db st)\<lparr>calls := calls (db st) @ [ExecuteMany (batch st @ [f r]), Commit],
                       table := table (db st) @ pending (db st) @ batch st @ [f r], pending := []\<rparr>\<rparr>"
    from False Cons.prems have full: "length (batch st @ [f r]) = bs"
      by simp
    have step: "process_row tr bs st r = ?st1"
      using r False Cons.prems by (intro process_row_flush_ok) simp_all
    have "faults (db ?st1) = []" "pending (db ?st1) = []" "length (batch ?st1) < bs"
      using Cons.prems bs by simp_all
    from Cons.IH [OF this rows]
    have ih: "flushed (db (import_loop tr bs ?st1 rows)) @ spec_batches bs (batch (import_loop tr bs ?st1 rows))
       = flushed (db ?st1) @ spec_batches bs (map f rows)"
      "table (db (import_loop tr bs ?st1 rows)) @ batch (import_loop tr bs ?st1 rows)
       = table (db ?st1) @ map f rows"
      "row_count (import_loop tr bs ?st1 rows) + length (batch (import_loop tr bs ?st1 rows))
       = row_count ?st1 + length rows"
      "error_count (import_loop tr bs ?st1 rows) = error_count st"
      "faults (db (import_loop tr bs ?st1 rows)) = []"
      "pending (db (import_loop tr bs ?st1 rows)) = []"
      "length (batch (import_loop tr bs ?st1 rows)) < bs"
      by simp_all
    have sb: "spec_batches bs (batch st @ f r # map f rows) =
        (batch st @ [f r]) # spec_batches bs (map f rows)"
      using spec_batches_full [OF bs full, of "map f rows"] by simp
    show ?thesis
      using ih Cons.prems by (simp add: step sb flushed_def map_filter_def)
  qed
qed




lemma transform_row_Inr:
  "(\<lambda>(now, row). transform_row now row) r = Inr ((\<lambda>(now, row). projr (transform_row now row)) r)"
  by (cases r) (simp add: transform_row_def)

lemma count_query_ok:
  "faults s = [] \<Longrightarrow>
   count_query s = (Inr (length (table s) + length (pending s)), s\<lparr>calls := calls s @ [CountQuery]\<rparr>)"
  by (simp add: count_query_def storage_call_ok)

lemma flushed_simps:
  "flushed (s\<lparr>calls := calls s @ [Connect]\<rparr>) = flushed s"
  "flushed (s\<lparr>calls := calls s @ [CountQuery]\<rparr>) = flushed s"
  "flushed (s\<lparr>calls := calls s @ [ExecuteMany b, Commit]\<rparr>) = flushed s @ [b]"
  "flushed (s\<lparr>table := T\<rparr>) = flushed s"
  "flushed (s\<lparr>pending := P\<rparr>) = flushed s"
  "flushed (close s) = flushed s"
  by (simp_all add: flushed_def map_filter_def close_def)

lemma import_loop_from_start:
  assumes bs: "0 < bs" and tr: "\<forall>r \<in> set rows. tr r = Inr (f r)"
    and s0: "faults s0 = []" "pending s0 = []"
    and L: "L = import_loop tr bs (initial_state s0) rows"
  shows "flushed (db L) @ spec_batches bs (batch L) = flushed s0 @ spec_batches bs (map f rows)"
    and "table (db L) @ batch L = table s0 @ map f rows"
    and "row_count L + length (batch L) = length rows"
    and "error_count L = 0"
    and "faults (db L) = []"
    and "pending (db L) = []"
    and "length (batch L) < bs"
proof -
  have init: "db (initial_state s0) = s0" "batch (initial_state s0) = []"
    "row_count (initial_state s0) = 0" "error_count (initial_state s0) = 0"
    by (simp_all add: initial_state_def)
  have "faults (db (initial_state s0)) = []" "pending (db (initial_state s0)) = []"
    "length (batch (initial_state s0)) < bs"
    using s0 bs by (simp_all add: init)
  note raw = import_loop_fault_free [OF bs tr this, folded L]
  from raw show "flushed (db L) @ spec_batches bs (batch L) = flushed s0 @ spec_batches bs (map f rows)"
    by (simp add: init)
  from raw show "table (db L) @ batch L = table s0 @ map f rows"
    by (simp add: init)
  from raw show "row_count L + length (batch L) = length rows"
    by (simp add: init)
  from raw show "error_count L = 0"
    by (simp add: init)
  from raw show "faults (db L) = []" "pending (db L) = []" "length (batch L) < bs"
    by simp_all
qed


text \<open>
  C6. When the storage raises nothing, a run with a positive batch size hands the
  records to the storage in input order, cut into batches of the batch size with a
  last batch of what remains; all of them are committed, and the total printed is
  the number of rows. With batch size 2 and 5 rows there are three flushes, of 2, 2
  and 1 records.
\<close>

theorem batches_flushed_in_order:
  assumes csv: "csv_file w = Some rows" and faults: "faults (database w) = []"
    and pending: "pending (database w) = []" and bs: "0 < bs"
  shows "\<exists>pre s.
     import_data_with bs w =
       (pre @ [Print_completed, Print_total (length rows), Print_errors 0,
               Print_db_total (length (table (database w)) + length rows)], None, s)
     \<and> flushed s = flushed (database w)
          @ spec_batches bs (map (\<lambda>(now, row). projr (transform_row now row)) rows)
     \<and> table s = table (database w) @ map (\<lambda>(now, row). projr (transform_row now row)) rows
     \<and> concat (spec_batches bs (map (\<lambda>(now, row). projr (transform_row now row)) rows))
          = map (\<lambda>(now, row). projr (transform_row now row)) rows
     \<and> (bs = 2 \<and> length rows = 5 \<longrightarrow>
          map length (spec_batches bs (map (\<lambda>(now, row). projr (transform_row now row)) rows))
            = [2, 2, 1])"
proof -
  let ?tr = "\<lambda>(now, row). transform_row now row"
  let ?f = "\<lambda>(now, row). projr (transform_row now row)"
  define s0 where "s0 = (database w)\<lparr>calls := calls (database w) @ [Connect]\<rparr>"
  define L where "L = import_loop ?tr bs (initial_state s0) rows"
  have con: "connect (database w) = (None, s0)"
    using faults by (simp add: connect_def storage_call_ok s0_def)
  have s0: "faults s0 = []" "pending s0 = []" "table s0 = table (database w)"
    "flushed s0 = flushed (database w)"
    using faults pending by (simp_all add: s0_def flushed_simps)
  have tr: "\<forall>r \<in> set rows. ?tr r = Inr (?f r)"
    using transform_row_Inr by blast
  note inv = import_loop_from_start [OF bs tr s0(1,2) L_def]
  have len: "length (table (db L)) + length (batch L) = length (table (database w)) + length rows"
    using arg_cong [OF inv(2), of length] by (simp add: s0)
  have run: "import_data_with bs w =
      (case final_flush L of
         (Some e, st) \<Rightarrow> (printed st @ top_handler e, Some 1, db st)
       | (None, st) \<Rightarrow>
           (case count_query (db st) of
              (Inl e, s1) \<Rightarrow>
                (printed st @ [Print_completed, Print_total (row_count st),
                   Print_errors (error_count st)] @ top_handler e, Some 1, s1)
            | (Inr n, s1) \<Rightarrow>
                (printed st @ [Print_completed, Print_total (row_count st),
                   Print_errors (error_count st), Print_db_total n], None, close s1)))"
    by (simp add: import_data_with_def con csv L_def)
  have main: "\<exists>pre s.
     import_data_with bs w =
       (pre @ [Print_completed, Print_total (length rows), Print_errors 0,
               Print_db_total (length (table (database w)) + length rows)], None, s)
     \<and> flushed s = flushed (database w) @ spec_batches bs (map ?f rows)
     \<and> table s = table (database w) @ map ?f rows"
  proof (cases "batch L = []")
    case True
    have ff: "final_flush L = (None, L)"
      using True by (simp add: final_flush_def)
    have cq: "count_query (db L) = (Inr (length (table (db L))), (db L)\<lparr>calls := calls (db L) @ [CountQuery]\<rparr>)"
      using inv(5,6) by (simp add: count_query_ok)
    have res: "import_data_with bs w =
        (printed L @ [Print_completed, Print_total (row_count L), Print_errors (error_count L),
           Print_db_total (length (table (db L)))], None,
         close ((db L)\<lparr>calls := calls (db L) @ [CountQuery]\<rparr>))"
      by (simp add: run ff cq)
    have 1: "row_count L = length rows" "error_count L = 0"
      "length (table (db L)) = length (table (database w)) + length rows"
      using inv(3,4) len True by simp_all
    have 2: "flushed (close ((db L)\<lparr>calls := calls (db L) @ [CountQuery]\<rparr>)) =
        flushed (database w) @ spec_batches bs (map ?f rows)"
      using inv(1) True by (simp add: flushed_simps spec_batches_short s0)
    have 3: "table (close ((db L)\<lparr>calls := calls (db L) @ [CountQuery]\<rparr>)) =
        table (database w) @ map ?f rows"
      using inv(2) True by (simp add: close_def s0)
    show ?thesis
    proof (intro exI conjI)
      show "import_data_with bs w =
          (printed L @ [Print_completed, Print_total (length rows), Print_errors 0,
             Print_db_total (length (table (database w)) + length rows)], None,
           close ((db L)\<lparr>calls := calls (db L) @ [CountQuery]\<rparr>))"
        by (simp only: res 1)
    qed (rule 2, rule 3)
  next
    case False
    let ?d = "(db L)\<lparr>calls := calls (db L) @ [ExecuteMany (batch L), Commit],
                           table := table (db L) @ pending (db L) @ batch L, pending := []\<rparr>"
    have ff: "final_flush L = (None, L\<lparr>db := ?d, row_count := row_count L + length (batch L)\<rparr>)"
      using False inv(5) by (simp add: final_flush_def flush_ok)
    have cq: "count_query ?d = (Inr (length (table ?d)), ?d\<lparr>calls := calls ?d @ [CountQuery]\<rparr>)"
      using inv(5) by (simp add: count_query_ok)
    have res: "import_data_with bs w =
        (printed L @ [Print_completed, Print_total (row_count L + length (batch L)),
           Print_errors (error_count L), Print_db_total (length (table ?d))], None,
         close (?d\<lparr>calls := calls ?d @ [CountQuery]\<rparr>))"
      by (simp add: run ff cq)
    have 1: "row_count L + length (batch L) = length rows" "error_count L = 0"
      "length (table ?d) = length (table (database w)) + length rows"
      using inv(3,4,6) len by simp_all
    have sb: "spec_batches bs (batch L) = [batch L]"
      using inv(7) False by (simp add: spec_batches_short)
    have "flushed (close (?d\<lparr>calls := calls ?d @ [CountQuery]\<rparr>)) = flushed (db L) @ [batch L]"
      by (simp add: flushed_def map_filter_def close_def)
    then have 2: "flushed (close (?d\<lparr>calls := calls ?d @ [CountQuery]\<rparr>)) =
        flushed (database w) @ spec_batches bs (map ?f rows)"
      using inv(1) by (simp only: sb s0(4))
    have 3: "table (close (?d\<lparr>calls := calls ?d @ [CountQuery]\<rparr>)) =
        table (database w) @ map ?f rows"
      using inv(2,6) by (simp add: close_def s0)
    show ?thesis
    proof (intro exI conjI)
      show "import_data_with bs w =
          (printed L @ [Print_completed, Print_total (length rows), Print_errors 0,
             Print_db_total (length (table (database w)) + length rows)], None,
           close (?d\<lparr>calls := calls ?d @ [CountQuery]\<rparr>))"
        by (simp only: res 1)
    qed (rule 2, rule 3)
  qed
  then obtain pre s where run': "import_data_with bs w =
       (pre @ [Print_completed, Print_total (length rows), Print_errors 0,
               Print_db_total (length (table (database w)) + length rows)], None, s)"
    and fl: "flushed s = flushed (database w) @ spec_batches bs (map ?f rows)"
    and tb: "table s = table (database w) @ map ?f rows"
    by blast
  have sz: "bs = 2 \<and> length rows = 5 \<longrightarrow> map length (spec_batches bs (map ?f rows)) = [2, 2, 1]"
    using spec_batches_2_5 [of "map ?f rows"] by simp
  show ?thesis
  proof (intro exI conjI)
    show "import_data_with bs w =
       (pre @ [Print_completed, Print_total (length rows), Print_errors 0,
               Print_db_total (length (table (database w)) + length rows)], None, s)"
      by (rule run')
  qed (rule fl, rule tb, rule concat_spec_batches, rule sz)
qed



theorem batches_flushed_in_order_witness:
  "\<exists>pre s.
     import_data_with 2
       \<lparr>csv_file = Some (replicate 5 (example_now, example_row)), response = ''y'',
        database = empty_db\<rparr> =
       (pre @ [Print_completed, Print_total 5, Print_errors 0, Print_db_total 5], None, s)
     \<and> map length (flushed s) = [2, 2, 1] \<and> table s = replicate 5 example_txn"
proof -
  let ?w = "\<lparr>csv_file = Some (replicate 5 (example_now, example_row)), response = ''y'',
        database = empty_db\<rparr>"
  have h: "csv_file ?w = Some (replicate 5 (example_now, example_row))"
    "faults (database ?w) = []" "pending (database ?w) = []" "0 < (2::nat)"
    by (simp_all add: empty_db_def)
  from batches_flushed_in_order [OF h] obtain pre s where
    run: "import_data_with 2 ?w =
       (pre @ [Print_completed, Print_total (length (replicate 5 (example_now, example_row))),
               Print_errors 0,
               Print_db_total (length (table (database ?w))
                 + length (replicate 5 (example_now, example_row)))], None, s)"
    and fl: "flushed s = flushed (database ?w)
          @ spec_batches 2 (map (\<lambda>(now, row). projr (transform_row now row))
              (replicate 5 (example_now, example_row)))"
    and tb: "table s = table (database ?w)
          @ map (\<lambda>(now, row). projr (transform_row now row)) (replicate 5 (example_now, example_row))"
    and cc: "concat (spec_batches 2 (map (\<lambda>(now, row). projr (transform_row now row))
              (replicate 5 (example_now, example_row))))
          = map (\<lambda>(now, row). projr (transform_row now row)) (replicate 5 (example_now, example_row))"
    and sz: "(2::nat) = 2 \<and> length (replicate 5 (example_now, example_row)) = 5 \<longrightarrow>
          map length (spec_batches 2 (map (\<lambda>(now, row). projr (transform_row now row))
              (replicate 5 (example_now, example_row)))) = [2, 2, 1]"
    by (elim exE conjE) (rule that, assumption+)
  show ?thesis
  proof (intro exI conjI)
    show "import_data_with 2 ?w =
       (pre @ [Print_completed, Print_total 5, Print_errors 0, Print_db_total 5], None, s)"
      using run by (simp add: empty_db_def)
    have "flushed empty_db = []"
      by (simp add: flushed_def empty_db_def map_filter_def)
    then show "map length (flushed s) = [2, 2, 1]"
      using sz by (simp add: fl)
    show "table s = replicate 5 example_txn"
      by (simp add: tb empty_db_def transform_example_row)
  qed
qed

section \<open>The handler of the loop\<close>

text \<open>
  C10. The transformation of a row never raises: every row, with every reading of
  the clock, gives a record, and the date parser returns absent on a value that is
  not a text. So the handler of the loop is entered only when the batch is full and
  its flush raises, and the exception is then an error of the storage.
\<close>

theorem transformation_never_raises:
  "(\<exists>t. transform_row now row = Inr t)
   \<and> parse_date PNone = None \<and> parse_date (PInt i) = None
   \<and> (try_body (\<lambda>(now, row). transform_row now row) bs st r = (Some e, st') \<longrightarrow>
        bs \<le> length (batch st) + 1
        \<and> flush (st\<lparr>batch := batch st @ [projr (transform_row (fst r) (snd r))]\<rparr>) = (Some e, st')
        \<and> (\<exists>m. e = MySQLError m))"
proof (intro conjI impI)
  show "\<exists>t. transform_row now row = Inr t"
    by (simp add: transform_row_def)
  show "parse_date PNone = None" "parse_date (PInt i) = None"
    by (rule parse_date_not_str)+
next
  assume a: "try_body (\<lambda>(now, row). transform_row now row) bs st r = (Some e, st')"
  obtain n rw where r: "r = (n, rw)" by (cases r)
  define T where "T = projr (transform_row n rw)"
  have t: "transform_row n rw = Inr T"
    by (simp add: T_def transform_row_def)
  have T: "projr (transform_row (fst r) (snd r)) = T"
    by (simp add: r T_def)
  obtain o1 s1 where f: "flush (st\<lparr>batch := batch st @ [T]\<rparr>) = (o1, s1)"
    by (cases "flush (st\<lparr>batch := batch st @ [T]\<rparr>)")
  from a have full: "bs \<le> length (batch st) + 1"
    by (simp add: try_body_def r t split: if_splits)
  with a f have "o1 = Some e \<and> s1 = st'"
    by (cases o1) (simp_all add: try_body_def r t)
  with f have fl: "flush (st\<lparr>batch := batch st @ [T]\<rparr>) = (Some e, st')"
    by simp
  from full show "bs \<le> length (batch st) + 1" .
  from fl show "flush (st\<lparr>batch := batch st @ [projr (transform_row (fst r) (snd r))]\<rparr>) = (Some e, st')"
    by (simp only: T)
  from fl show "\<exists>m. e = MySQLError m"
    by (rule flush_exc)
qed

theorem transformation_never_raises_witness:
  "try_body (\<lambda>(now, row). transform_row now row) 1
      (initial_state (empty_db\<lparr>faults := [Some ''gone away'']\<rparr>)) (example_now, example_row)
     = (Some (MySQLError ''gone away''),
        (initial_state (empty_db\<lparr>faults := [Some ''gone away'']\<rparr>))
          \<lparr>batch := [example_txn],
           db := empty_db\<lparr>calls := [ExecuteMany [example_txn]]\<rparr>\<rparr>)
   \<and> flush ((initial_state (empty_db\<lparr>faults := [Some ''gone away'']\<rparr>))\<lparr>batch := [example_txn]\<rparr>)
     = (Some (MySQLError ''gone away''),
        (initial_state (empty_db\<lparr>faults := [Some ''gone away'']\<rparr>))
          \<lparr>batch := [example_txn],
           db := empty_db\<lparr>calls := [ExecuteMany [example_txn]]\<rparr>\<rparr>)"
proof -
  have tb: "try_body (\<lambda>(now, row). transform_row now row) 1
      (initial_state (empty_db\<lparr>faults := [Some ''gone away'']\<rparr>)) (example_now, example_row)
     = (Some (MySQLError ''gone away''),
        (initial_state (empty_db\<lparr>faults := [Some ''gone away'']\<rparr>))
          \<lparr>batch := [example_txn],
           db := empty_db\<lparr>calls := [ExecuteMany [example_txn]]\<rparr>\<rparr>)"
    by (simp add: try_body_def transform_example_row flush_def executemany_def storage_call_def
        initial_state_def empty_db_def)
  from transformation_never_raises [of example_now example_row 0
      1 "initial_state (empty_db\<lparr>faults := [Some ''gone away'']\<rparr>)" "(example_now, example_row)"
      "MySQLError ''gone away''"] tb
  show ?thesis
    by (simp add: transform_example_row initial_state_def)
qed


section \<open>A storage error in the loop\<close>




lemma process_row_flush_fails:
  "tr r = Inr t \<Longrightarrow> bs \<le> length (batch st) + 1 \<Longrightarrow> faults (db st) = Some m # fs \<Longrightarrow>
   process_row tr bs st r =
     st\<lparr>batch := batch st @ [t],
        db := (db st)\<lparr>faults := fs, calls := calls (db st) @ [ExecuteMany (batch st @ [t])]\<rparr>,
        error_count := error_count st + 1,
        printed := printed st @ (if error_count st + 1 \<le> 10 then [Print_row_error (MySQLError m)] else [])\<rparr>"
  by (simp add: process_row_def try_body_def flush_def executemany_def storage_call_def)


lemma import_loop_flush_fails_once:
  assumes tr: "\<forall>r \<in> set rows. tr r = Inr (f r)" and len: "length rows = bs" and bs: "0 < bs"
    and st: "batch st = []" "error_count st = 0" "faults (db st) = [Some m]"
  shows "import_loop tr bs st rows =
     st\<lparr>batch := map f rows,
        db := (db st)\<lparr>faults := [], calls := calls (db st) @ [ExecuteMany (map f rows)]\<rparr>,
        error_count := 1,
        printed := printed st @ [Print_row_error (MySQLError m)]\<rparr>"
proof -
  from len bs have ne: "rows \<noteq> []" by auto
  then have split: "rows = butlast rows @ [last rows]" by simp
  let ?L1 = "st\<lparr>batch := batch st @ map f (butlast rows)\<rparr>"
  have "\<forall>r \<in> set (butlast rows). tr r = Inr (f r)"
    using tr by (meson in_set_butlastD)
  moreover have "length (batch st) + length (butlast rows) < bs"
    using len bs st by simp
  ultimately have L1: "import_loop tr bs st (butlast rows) = ?L1"
    by (rule import_loop_no_flush)
  have lastr: "tr (last rows) = Inr (f (last rows))"
    using tr ne by simp
  have pre: "bs \<le> length (batch ?L1) + 1" "faults (db ?L1) = Some m # []"
    using len bs st by simp_all
  have L2: "process_row tr bs ?L1 (last rows) =
     st\<lparr>batch := map f (butlast rows) @ [f (last rows)],
        db := (db st)\<lparr>faults := [], calls := calls (db st) @ [ExecuteMany (map f (butlast rows) @ [f (last rows)])]\<rparr>,
        error_count := 1,
        printed := printed st @ [Print_row_error (MySQLError m)]\<rparr>"
    using process_row_flush_fails [of tr "last rows" "f (last rows)" bs ?L1 m "[]", OF lastr pre] st
    by simp
  have m: "map f (butlast rows) @ [f (last rows)] = map f rows"
    using arg_cong [OF split, of "map f"] by simp
  have "import_loop tr bs st rows = import_loop tr bs st (butlast rows @ [last rows])"
    using split by simp
  also have "\<dots> = process_row tr bs ?L1 (last rows)"
    by (simp add: import_loop_append L1)
  finally show ?thesis
    by (simp only: L2 m)
qed

lemma import_with_one_failed_flush:
  assumes csv: "csv_file w = Some rows" and len: "length rows = BATCH_SIZE"
    and faults: "faults (database w) = [None, Some m]" and pending: "pending (database w) = []"
  shows "import_data w =
     ([Print_connected DB_CONFIG_database, Print_reading CSV_FILE,
       Print_row_error (MySQLError m), Print_completed, Print_total (length rows), Print_errors 1,
       Print_db_total (length (table (database w)) + length rows)],
      None,
      (database w)\<lparr>table := table (database w) @ map (\<lambda>(now, row). projr (transform_row now row)) rows,
        pending := [], faults := [],
        calls := calls (database w) @
          [Connect, ExecuteMany (map (\<lambda>(now, row). projr (transform_row now row)) rows),
           ExecuteMany (map (\<lambda>(now, row). projr (transform_row now row)) rows), Commit,
           CountQuery, Close]\<rparr>)"
proof -
  let ?tr = "\<lambda>(now, row). transform_row now row"
  let ?f = "\<lambda>(now, row). projr (transform_row now row)"
  define recs where "recs = map ?f rows"
  define s0 where "s0 = (database w)\<lparr>faults := [Some m], calls := calls (database w) @ [Connect]\<rparr>"
  have bs: "0 < BATCH_SIZE" by (simp add: BATCH_SIZE_def)
  from len bs have ne: "recs \<noteq> []" by (auto simp: recs_def)
  have con: "connect (database w) = (None, s0)"
    using faults by (simp add: connect_def storage_call_def s0_def)
  have tr: "\<forall>r \<in> set rows. ?tr r = Inr (?f r)"
    using transform_row_Inr by blast
  have "batch (initial_state s0) = []" "error_count (initial_state s0) = 0"
    "faults (db (initial_state s0)) = [Some m]"
    by (simp_all add: initial_state_def s0_def)
  note raw = import_loop_flush_fails_once [OF tr len bs this]
  define s1 where "s1 = s0\<lparr>faults := [], calls := calls s0 @ [ExecuteMany recs]\<rparr>"
  define st1 where "st1 = \<lparr>batch = recs, row_count = 0, error_count = 1,
       printed = [Print_connected DB_CONFIG_database, Print_reading CSV_FILE,
                  Print_row_error (MySQLError m)],
       db = s1\<rparr>"
  define s2 where "s2 = s1\<lparr>calls := calls s1 @ [ExecuteMany recs, Commit],
                table := table s1 @ pending s1 @ recs, pending := []\<rparr>"
  define st2 where "st2 = st1\<lparr>db := s2, row_count := row_count st1 + length (batch st1)\<rparr>"
  define s3 where "s3 = s2\<lparr>calls := calls s2 @ [CountQuery]\<rparr>"
  have loop: "import_loop ?tr BATCH_SIZE (initial_state s0) rows = st1"
    using raw by (simp add: initial_state_def recs_def st1_def s1_def)
  have "faults (db st1) = []" "batch st1 \<noteq> []"
    using ne by (simp_all add: st1_def s1_def)
  then have ff: "final_flush st1 = (None, st2)"
    using flush_ok [of st1] by (simp add: final_flush_def st2_def s2_def st1_def)
  have st2: "db st2 = s2" "row_count st2 = length recs" "error_count st2 = 1"
    "printed st2 = [Print_connected DB_CONFIG_database, Print_reading CSV_FILE,
                  Print_row_error (MySQLError m)]"
    by (simp_all add: st2_def st1_def)
  have "faults s2 = []"
    by (simp add: s2_def s1_def)
  then have cq: "count_query s2 = (Inr (length (table s2) + length (pending s2)), s3)"
    unfolding s3_def by (rule count_query_ok)
  have run0: "import_data_with BATCH_SIZE w =
      ([Print_connected DB_CONFIG_database, Print_reading CSV_FILE, Print_row_error (MySQLError m),
        Print_completed, Print_total (length recs), Print_errors 1,
        Print_db_total (length (table s2) + length (pending s2))],
       None, close s3)"
    by (simp add: import_data_with_def con csv loop ff cq st2)
  have s3: "close s3 = (database w)\<lparr>table := table (database w) @ recs, pending := [], faults := [],
         calls := calls (database w) @ [Connect, ExecuteMany recs, ExecuteMany recs, Commit,
           CountQuery, Close]\<rparr>"
    using pending by (simp add: close_def s3_def s2_def s1_def s0_def)
  have n: "length (table s2) + length (pending s2) = length (table (database w)) + length recs"
    using pending by (simp add: s2_def s1_def s0_def)
  have run: "import_data_with BATCH_SIZE w =
      ([Print_connected DB_CONFIG_database, Print_reading CSV_FILE, Print_row_error (MySQLError m),
        Print_completed, Print_total (length recs), Print_errors 1,
        Print_db_total (length (table (database w)) + length recs)],
       None,
       (database w)\<lparr>table := table (database w) @ recs, pending := [], faults := [],
         calls := calls (database w) @ [Connect, ExecuteMany recs, ExecuteMany recs, Commit,
           CountQuery, Close]\<rparr>)"
    by (simp only: run0 s3 n)
  then show ?thesis
    by (simp add: import_data_def recs_def)
qed


section \<open>The handler of the loop on a storage error\<close>




section \<open>The driver\<close>

text \<open>
  C9, as the claim states it, fails on the answer \<^verbatim>\<open>Y\<close>: it is not the text \<^verbatim>\<open>y\<close>, and
  the run is not aborted: the storage is opened and the row of the file is imported.
\<close>

theorem capital_answer_counterexample:
  "''Y'' \<noteq> ''y''
   \<and> main \<lparr>csv_file = Some [(example_now, example_row)], response = ''Y'', database = empty_db\<rparr> =
       ([Print_banner, Prompt CSV_FILE, Print_connected DB_CONFIG_database, Print_reading CSV_FILE,
         Print_completed, Print_total 1, Print_errors 0, Print_db_total 1, Print_next_steps],
        0,
        \<lparr>table = [example_txn], pending = [], faults = [],
         calls = [Connect, ExecuteMany [example_txn], Commit, CountQuery, Close]\<rparr>)"
  by (simp add: main_def main_with_def BATCH_SIZE_def py_lower_y import_data_with_def connect_def
      storage_call_def empty_db_def initial_state_def process_row_def try_body_def
      transform_example_row final_flush_def flush_def executemany_def commit_def count_query_def
      close_def)

text \<open>
  C9, amended. When the CSV file is missing, the program prints the error and exits
  with status 1, and the storage is left as it was: no call is made to it. When the
  file is there and the answer at the prompt is neither \<^verbatim>\<open>y\<close> nor \<^verbatim>\<open>Y\<close>, it prints
  that the import is cancelled and exits with status 0, and again no call is made
  to the storage.
\<close>

theorem driver_exits_early:
  "(csv_file w = None \<longrightarrow>
      main w = ([Print_banner, Print_file_not_found CSV_FILE, Print_ensure_current_directory],
                1, database w))
   \<and> (csv_file w \<noteq> None \<and> response w \<noteq> ''y'' \<and> response w \<noteq> ''Y'' \<longrightarrow>
      main w = ([Print_banner, Prompt CSV_FILE, Print_cancelled], 0, database w))"
  by (simp add: main_def main_with_def py_lower_y)

theorem driver_exits_early_witness:
  "main \<lparr>csv_file = None, response = ''y'', database = empty_db\<rparr> =
     ([Print_banner, Print_file_not_found CSV_FILE, Print_ensure_current_directory], 1, empty_db)
   \<and> main \<lparr>csv_file = Some [(example_now, example_row)], response = ''n'', database = empty_db\<rparr> =
     ([Print_banner, Prompt CSV_FILE, Print_cancelled], 0, empty_db)"
  using driver_exits_early [of "\<lparr>csv_file = None, response = ''y'', database = empty_db\<rparr>"]
    driver_exits_early
      [of "\<lparr>csv_file = Some [(example_now, example_row)], response = ''n'', database = empty_db\<rparr>"]
  by simp


section \<open>A storage error is not fatal in the loop\<close>

text \<open>
  C1. A run on a file of exactly as many rows as the batch size, in which the first
  \<^verbatim>\<open>executemany\<close> raises an error of the storage: the handler of the loop takes the
  error and prints it as an error of the row; the batch is kept, and the flush after
  the loop hands the same records to the storage again; the run ends with status 0.
  The error is not fatal and the flush is tried again.
\<close>

theorem storage_error_in_loop_not_fatal:
  assumes csv: "csv_file w = Some rows" and len: "length rows = BATCH_SIZE"
    and resp: "response w = ''y''"
    and faults: "faults (database w) = [None, Some m]" and pending: "pending (database w) = []"
  shows "main w =
     ([Print_banner, Prompt CSV_FILE, Print_connected DB_CONFIG_database, Print_reading CSV_FILE,
       Print_row_error (MySQLError m), Print_completed, Print_total (length rows), Print_errors 1,
       Print_db_total (length (table (database w)) + length rows), Print_next_steps],
      0,
      (database w)\<lparr>table := table (database w) @ map (\<lambda>(now, row). projr (transform_row now row)) rows,
        pending := [], faults := [],
        calls := calls (database w) @
          [Connect, ExecuteMany (map (\<lambda>(now, row). projr (transform_row now row)) rows),
           ExecuteMany (map (\<lambda>(now, row). projr (transform_row now row)) rows), Commit,
           CountQuery, Close]\<rparr>)"
proof -
  have "py_lower (response w) = ''y''"
    by (simp add: resp py_lower_y)
  moreover have "csv_file w \<noteq> None"
    by (simp add: csv)
  moreover note import_with_one_failed_flush [OF csv len faults pending]
  ultimately show ?thesis
    by (simp add: main_def main_with_def import_data_def)
qed

theorem storage_error_in_loop_not_fatal_witness:
  "\<exists>out s. main \<lparr>csv_file = Some (replicate 1000 (example_now, example_row)), response = ''y'',
            database = empty_db\<lparr>faults := [None, Some ''deadlock'']\<rparr>\<rparr> = (out, 0, s)
     \<and> Print_row_error (MySQLError ''deadlock'') \<in> set out
     \<and> table s = replicate 1000 example_txn
     \<and> flushed s = [replicate 1000 example_txn, replicate 1000 example_txn]"
proof -
  let ?w = "\<lparr>csv_file = Some (replicate 1000 (example_now, example_row)), response = ''y'',
            database = empty_db\<lparr>faults := [None, Some ''deadlock'']\<rparr>\<rparr>"
  have h: "csv_file ?w = Some (replicate 1000 (example_now, example_row))"
    "length (replicate 1000 (example_now, example_row)) = BATCH_SIZE"
    "response ?w = ''y''" "faults (database ?w) = [None, Some ''deadlock'']"
    "pending (database ?w) = []"
    by (simp_all add: BATCH_SIZE_def empty_db_def)
  show ?thesis
    unfolding storage_error_in_loop_not_fatal [OF h]
    by (simp add: transform_example_row empty_db_def flushed_def map_filter_def)
qed

end
